theory Spec2Isabelle
  imports Main
begin

section \<open>Python strings and integer formatting\<close>

text \<open>
  Strings are lists of ASCII characters. Program codes, years and sequence numbers
  are ASCII throughout the repository (\<^verbatim>\<open>TIF\<close>, \<^verbatim>\<open>SI\<close>, \<^verbatim>\<open>FARM\<close>, ...), and on ASCII
  input \<^verbatim>\<open>str.strip()\<close> removes the characters 9-13 and 28-32 from both ends while
  \<^verbatim>\<open>str.upper()\<close> maps \<^verbatim>\<open>a-z\<close> to \<^verbatim>\<open>A-Z\<close> and leaves every other character alone.
  Outside ASCII, Python trims further characters (U+0085, U+00A0, ...) and changes further
  letters (U+00E9 to U+00C9, U+00DF to \<^verbatim>\<open>SS\<close>, ...); \<open>py_isspace\<close> and \<open>ascii_upper\<close>
  do not follow it there. A statement about which codes are trimmed away or what the
  upper-cased code looks like is therefore made about \<open>ascii_string\<close> arguments only.
\<close>

definition py_isspace :: "char \<Rightarrow> bool" where
  "py_isspace c =
     ((9 \<le> (of_char c :: nat) \<and> (of_char c :: nat) \<le> 13) \<or>
      (28 \<le> (of_char c :: nat) \<and> (of_char c :: nat) \<le> 32))"

definition py_strip :: "string \<Rightarrow> string" where
  "py_strip s = rev (dropWhile py_isspace (rev (dropWhile py_isspace s)))"

definition ascii_upper :: "char \<Rightarrow> char" where
  "ascii_upper c =
     (if 97 \<le> (of_char c :: nat) \<and> (of_char c :: nat) \<le> 122
      then char_of ((of_char c :: nat) - 32) else c)"

definition py_upper :: "string \<Rightarrow> string" where
  "py_upper s = map ascii_upper s"

text \<open>The strings on which the two functions above are Python's.\<close>

definition ascii_string :: "string \<Rightarrow> bool" where
  "ascii_string s = (\<forall>c \<in> set s. (of_char c :: nat) < 128)"

definition digit_char :: "nat \<Rightarrow> char" where
  "digit_char d = char_of (48 + d)"

text \<open>The decimal digits of a natural number, most significant first.\<close>

fun dec_nat :: "nat \<Rightarrow> string" where
  "dec_nat n =
     (if n < 10 then [digit_char n] else dec_nat (n div 10) @ [digit_char (n mod 10)])"

declare dec_nat.simps [simp del]

text \<open>\<^verbatim>\<open>str(n)\<close>, which is also what \<^verbatim>\<open>f"{n}"\<close> gives for an integer.\<close>

definition py_str :: "int \<Rightarrow> string" where
  "py_str n = (if n < 0 then CHR ''-'' # dec_nat (nat (- n)) else dec_nat (nat n))"

definition zfill :: "nat \<Rightarrow> string \<Rightarrow> string" where
  "zfill w s = replicate (w - length s) (CHR ''0'') @ s"

text \<open>
  \<^verbatim>\<open>f"{n:04d}"\<close>: the sign, if any, comes first and the zeros fill what is left of
  a minimum width of four; a wider number is printed in full.
\<close>

definition fmt_04d :: "int \<Rightarrow> string" where
  "fmt_04d n =
     (if n < 0 then CHR ''-'' # zfill 3 (dec_nat (nat (- n))) else zfill 4 (dec_nat (nat n)))"

text \<open>Reading a digit string back as a number; used only to state properties.\<close>

definition dec_val :: "string \<Rightarrow> nat" where
  "dec_val s = foldl (\<lambda>acc c. 10 * acc + ((of_char c :: nat) - 48)) 0 s"

definition is_digit :: "char \<Rightarrow> bool" where
  "is_digit c = (48 \<le> (of_char c :: nat) \<and> (of_char c :: nat) \<le> 57)"

section \<open>The database\<close>

text \<open>
  The three tables of \<^verbatim>\<open>models.py\<close>. A table is the list of its rows. The engine is
  SQLite (\<^verbatim>\<open>DATABASE_URL\<close> in \<^verbatim>\<open>database.py\<close> and \<^verbatim>\<open>cli_register.py\<close>): column
  lengths are not enforced, text equality is exact, and \<^verbatim>\<open>LIKE\<close> ignores ASCII case.
\<close>

type_synonym timestamp = nat

datatype status_enum = Pending | Approved | Rejected

datatype jalur_masuk_enum = SNBP | SNBT | Mandiri

fun status_str :: "status_enum \<Rightarrow> string" where
  "status_str Pending = ''pending''"
| "status_str Approved = ''approved''"
| "status_str Rejected = ''rejected''"

record ProgramStudi =
  prodi_id :: int
  kode :: string
  nama :: string
  fakultas :: string

record CalonMahasiswa =
  calon_id :: int
  nama_lengkap :: string
  email :: string
  phone :: string
  tanggal_lahir :: nat
  alamat :: "string option"
  program_studi_id :: int
  jalur_masuk :: jalur_masuk_enum
  status :: status_enum
  created_at :: timestamp
  approved_at :: "timestamp option"
  nim :: "string option"

record NIMCounter =
  counter_id :: int
  year :: int
  kode_prodi :: string
  last_seq :: int

record database =
  program_studi :: "ProgramStudi list"
  calon_mahasiswa :: "CalonMahasiswa list"
  nim_counters :: "NIMCounter list"

datatype py_error =
    ValueError string
  | HTTPException nat string
  | AttributeError
  | IntegrityError
  | MultipleResultsFound

section \<open>\<^verbatim>\<open>utils.generate_nim\<close>: the counter-row allocator\<close>

text \<open>\<^verbatim>\<open>Query.one_or_none()\<close>: no row, the only row, or an error on several rows.\<close>

fun one_or_none :: "'a list \<Rightarrow> py_error + 'a option" where
  "one_or_none [] = Inr None"
| "one_or_none [x] = Inr (Some x)"
| "one_or_none (x # y # zs) = Inl MultipleResultsFound"

text \<open>The next primary key of an autoincrement column: one more than the largest in use.\<close>

definition next_counter_id :: "NIMCounter list \<Rightarrow> int" where
  "next_counter_id rows = foldr max (map counter_id rows) 0 + 1"

text \<open>
  Flushing a new counter row: the \<^verbatim>\<open>INSERT\<close> is refused when the unique constraint
  \<^verbatim>\<open>uq_nimcounter_year_kode\<close> already holds a row with that key.
\<close>

definition insert_counter :: "int \<Rightarrow> string \<Rightarrow> int \<Rightarrow> database \<Rightarrow> py_error + database" where
  "insert_counter tahun kd s d =
     (if \<exists>c \<in> set (nim_counters d). year c = tahun \<and> kode_prodi c = kd
      then Inl IntegrityError
      else Inr (d\<lparr>nim_counters := nim_counters d @
                  [\<lparr>counter_id = next_counter_id (nim_counters d), year = tahun,
                    kode_prodi = kd, last_seq = s\<rparr>]\<rparr>))"

text \<open>Flushing a changed counter row: an \<^verbatim>\<open>UPDATE\<close> of \<^verbatim>\<open>last_seq\<close> by primary key.\<close>

definition update_counter :: "NIMCounter \<Rightarrow> int \<Rightarrow> database \<Rightarrow> database" where
  "update_counter counter s d =
     d\<lparr>nim_counters :=
         map (\<lambda>c. if counter_id c = counter_id counter then c\<lparr>last_seq := s\<rparr> else c)
           (nim_counters d)\<rparr>"

definition generate_nim :: "int \<Rightarrow> string \<Rightarrow> database \<Rightarrow> py_error + (string \<times> database)" where
  "generate_nim tahun kode_prodi_arg d =
     (let kd = py_upper (py_strip kode_prodi_arg) in
      if kd = [] then Inl (ValueError ''kode_prodi must be a non-empty string'')
      else if tahun < 2000 \<or> tahun > 9999 then Inl (ValueError ''tahun must be a four-digit year'')
      else
        (case one_or_none (filter (\<lambda>c. year c = tahun \<and> kode_prodi c = kd) (nim_counters d)) of
           Inl e \<Rightarrow> Inl e
         | Inr None \<Rightarrow>
             (case insert_counter tahun kd 1 d of
                Inl e \<Rightarrow> Inl e
              | Inr d' \<Rightarrow> Inr (py_str tahun @ kd @ fmt_04d 1, d'))
         | Inr (Some counter) \<Rightarrow>
             (let seq = last_seq counter + 1;
                  d' = update_counter counter seq d
              in Inr (py_str tahun @ kd @ fmt_04d seq, d'))))"

text \<open>The value of \<^verbatim>\<open>last_seq\<close> stored under a key, if the key has a row.\<close>

definition counter_of :: "database \<Rightarrow> int \<times> string \<Rightarrow> int option" where
  "counter_of d = map_of (map (\<lambda>c. ((year c, kode_prodi c), last_seq c)) (nim_counters d))"

text \<open>
  What the schema promises of \<^verbatim>\<open>nim_counters\<close>: the primary key and the pair
  (year, kode_prodi) are unique.
\<close>

definition counters_ok :: "database \<Rightarrow> bool" where
  "counters_ok d =
     (distinct (map counter_id (nim_counters d)) \<and>
      distinct (map (\<lambda>c. (year c, kode_prodi c)) (nim_counters d)))"

section \<open>Approval: \<^verbatim>\<open>approve_mahasiswa\<close> in \<^verbatim>\<open>main.py\<close> and \<^verbatim>\<open>approve\<close> in \<^verbatim>\<open>cli_register.py\<close>\<close>

text \<open>
  SQLite's \<^verbatim>\<open>LIKE\<close>: \<^verbatim>\<open>%\<close> matches any run of characters, \<^verbatim>\<open>_\<close> any single
  character, and letters match without regard to ASCII case. There is no escape character.
\<close>

fun sql_like :: "string \<Rightarrow> string \<Rightarrow> bool" where
  "sql_like [] s = (s = [])"
| "sql_like (p # ps) [] = (p = CHR ''%'' \<and> sql_like ps [])"
| "sql_like (p # ps) (c # cs) =
     (if p = CHR ''%'' then sql_like ps (c # cs) \<or> sql_like (p # ps) cs
      else (p = CHR ''_'' \<or> ascii_upper p = ascii_upper c) \<and> sql_like ps cs)"

text \<open>
  \<^verbatim>\<open>query(CalonMahasiswa).filter(CalonMahasiswa.nim.like(pattern)).count()\<close>;
  a row whose \<^verbatim>\<open>nim\<close> is \<^verbatim>\<open>NULL\<close> never matches.
\<close>

definition nim_like_count :: "string \<Rightarrow> database \<Rightarrow> nat" where
  "nim_like_count pattern d =
     length (filter (\<lambda>r. case nim r of None \<Rightarrow> False | Some n \<Rightarrow> sql_like pattern n)
       (calon_mahasiswa d))"

text \<open>
  Committing the approval of \<open>calon\<close>: the \<^verbatim>\<open>UPDATE\<close> of \<^verbatim>\<open>nim\<close>, \<^verbatim>\<open>status\<close> and
  \<^verbatim>\<open>approved_at\<close> by primary key. The unique index on \<^verbatim>\<open>nim\<close> refuses it when another
  row holds the same value: that is the \<^verbatim>\<open>IntegrityError\<close>, here \<open>None\<close>, after which
  the caller rolls back and the database is as before.
\<close>

definition commit_approval ::
  "database \<Rightarrow> CalonMahasiswa \<Rightarrow> string \<Rightarrow> timestamp \<Rightarrow> database option" where
  "commit_approval d calon nim_candidate t =
     (if \<exists>r \<in> set (calon_mahasiswa d). calon_id r \<noteq> calon_id calon \<and> nim r = Some nim_candidate
      then None
      else Some (d\<lparr>calon_mahasiswa :=
                    map (\<lambda>r. if calon_id r = calon_id calon
                              then r\<lparr>status := Approved, approved_at := Some t,
                                     nim := Some nim_candidate\<rparr>
                              else r)
                      (calon_mahasiswa d)\<rparr>))"

text \<open>
  The loop \<^verbatim>\<open>for attempt in range(5)\<close> of \<^verbatim>\<open>approve_mahasiswa\<close>, over the attempts still
  to make; \<open>clock attempt\<close> is the time read in that iteration.
\<close>

fun main_attempts ::
  "database \<Rightarrow> CalonMahasiswa \<Rightarrow> string \<Rightarrow> nat \<Rightarrow> (nat \<Rightarrow> timestamp) \<Rightarrow> nat list \<Rightarrow>
     (py_error + string option) \<times> database" where
  "main_attempts d calon prefix existing_count clock [] =
     (Inl (HTTPException 409 ''Could not generate unique NIM; please retry''), d)"
| "main_attempts d calon prefix existing_count clock (attempt # rest) =
     (let seq = existing_count + 1 + attempt;
          nim_candidate = prefix @ fmt_04d (int seq)
      in case commit_approval d calon nim_candidate (clock attempt) of
           Some d' \<Rightarrow> (Inr (Some nim_candidate), d')
         | None \<Rightarrow> main_attempts d calon prefix existing_count clock rest)"

text \<open>
  \<^verbatim>\<open>PUT /approve/{id}\<close>. \<open>yr\<close> is the year of the current UTC time. The result is the
  response (or the exception raised) and the database as the request leaves it.
\<close>

definition approve_mahasiswa ::
  "int \<Rightarrow> (nat \<Rightarrow> timestamp) \<Rightarrow> int \<Rightarrow> database \<Rightarrow> (py_error + string option) \<times> database" where
  "approve_mahasiswa yr clock cid d =
     (case find (\<lambda>r. calon_id r = cid) (calon_mahasiswa d) of
        None \<Rightarrow> (Inl (HTTPException 404 ''Calon mahasiswa not found''), d)
      | Some calon \<Rightarrow>
          if status calon = Approved then (Inr (nim calon), d)
          else if status calon \<noteq> Pending then
            (Inl (HTTPException 409
               (''Cannot approve candidate with status '' @ status_str (status calon))), d)
          else
            (case find (\<lambda>p. prodi_id p = program_studi_id calon) (program_studi d) of
               None \<Rightarrow> (Inl AttributeError, d)
             | Some prodi \<Rightarrow>
                 (let prefix = py_str yr @ kode prodi;
                      like_pattern = prefix @ ''%'';
                      existing_count = nim_like_count like_pattern d
                  in main_attempts d calon prefix existing_count clock [0..<5])))"

text \<open>\<^verbatim>\<open>f"{calon.nim}"\<close> for a nullable column.\<close>

fun py_str_opt :: "string option \<Rightarrow> string" where
  "py_str_opt None = ''None''"
| "py_str_opt (Some s) = s"

text \<open>The same loop in \<^verbatim>\<open>cli_register.approve\<close>: exit code and printed lines.\<close>

fun cli_attempts ::
  "database \<Rightarrow> CalonMahasiswa \<Rightarrow> string \<Rightarrow> nat \<Rightarrow> (nat \<Rightarrow> timestamp) \<Rightarrow> nat list \<Rightarrow>
     (py_error + int \<times> string list) \<times> database" where
  "cli_attempts d calon prefix existing_count clock [] =
     (Inr (13, [''ERROR: Gagal generate unique NIM setelah 5 percobaan'']), d)"
| "cli_attempts d calon prefix existing_count clock (attempt # rest) =
     (let seq = existing_count + 1 + attempt;
          nim_candidate = prefix @ fmt_04d (int seq)
      in case commit_approval d calon nim_candidate (clock attempt) of
           Some d' \<Rightarrow>
             (Inr (0, [''SUCCESS: Calon di-approve, NIM generated: '' @ nim_candidate]), d')
         | None \<Rightarrow> cli_attempts d calon prefix existing_count clock rest)"

definition approve ::
  "int \<Rightarrow> (nat \<Rightarrow> timestamp) \<Rightarrow> int option \<Rightarrow> database \<Rightarrow>
     (py_error + int \<times> string list) \<times> database" where
  "approve yr clock args_id d =
     (case args_id of
        None \<Rightarrow> (Inr (10, [''ERROR: --id diperlukan untuk approve'']), d)
      | Some cid \<Rightarrow>
          (case find (\<lambda>r. calon_id r = cid) (calon_mahasiswa d) of
             None \<Rightarrow>
               (Inr (11, [''ERROR: Calon mahasiswa dengan id '' @ py_str cid @
                          '' tidak ditemukan (INVALID DATA)'']), d)
           | Some calon \<Rightarrow>
               if status calon = Approved then
                 (Inr (0, [''INFO: Calon sudah di-approve sebelumnya, NIM: '' @
                           py_str_opt (nim calon)]), d)
               else if status calon \<noteq> Pending then
                 (Inr (12, [''ERROR: Status calon tidak pending (current: '' @
                            status_str (status calon) @ '')'']), d)
               else
                 (case find (\<lambda>p. prodi_id p = program_studi_id calon) (program_studi d) of
                    None \<Rightarrow> (Inl AttributeError, d)
                  | Some prodi \<Rightarrow>
                      (let kd = py_upper (kode prodi);
                           prefix = py_str yr @ kd;
                           existing_count = nim_like_count (prefix @ ''%'') d
                       in cli_attempts d calon prefix existing_count clock [0..<5]))))"

section \<open>Requests served one after another\<close>




section \<open>Example data\<close>

text \<open>Small databases on which the theorems below are instantiated.\<close>

definition example_prodi :: "string \<Rightarrow> ProgramStudi" where
  "example_prodi k = \<lparr>prodi_id = 1, kode = k, nama = ''Teknik Informatika'', fakultas = ''FTI''\<rparr>"

definition example_calon :: "int \<Rightarrow> status_enum \<Rightarrow> string option \<Rightarrow> CalonMahasiswa" where
  "example_calon i st n =
     \<lparr>calon_id = i, nama_lengkap = ''Budi'', email = ''budi'' @ py_str i @ ''@example.com'',
      phone = ''+628123456789'', tanggal_lahir = 20040101, alamat = None,
      program_studi_id = 1, jalur_masuk = SNBP, status = st, created_at = 0,
      approved_at = (if st = Approved then Some 0 else None), nim = n\<rparr>"

definition example_db :: "string \<Rightarrow> CalonMahasiswa list \<Rightarrow> database" where
  "example_db k rows = \<lparr>program_studi = [example_prodi k], calon_mahasiswa = rows, nim_counters = []\<rparr>"

definition db_mixed :: database where
  "db_mixed = example_db ''TIF''
     [example_calon 1 Approved (Some ''2025TIF0001''), example_calon 2 Rejected None]"

definition example_counters :: "NIMCounter list \<Rightarrow> database" where
  "example_counters rows = \<lparr>program_studi = [], calon_mahasiswa = [], nim_counters = rows\<rparr>"

definition db_si_counter :: database where
  "db_si_counter =
     example_counters [\<lparr>counter_id = 1, year = 2025, kode_prodi = ''SI'', last_seq = 7\<rparr>]"

definition db_tif_full :: database where
  "db_tif_full =
     example_counters [\<lparr>counter_id = 1, year = 2025, kode_prodi = ''TIF'', last_seq = 9999\<rparr>]"

definition db_gap :: database where
  "db_gap = example_db ''TIF''
     [example_calon 1 Approved (Some ''2025TIF0002''), example_calon 2 Pending None]"

definition db_crowded :: database where
  "db_crowded = example_db ''TIF''
     [example_calon 1 Approved (Some ''2025TIF0006''),
      example_calon 2 Approved (Some ''2025TIF0007''),
      example_calon 3 Approved (Some ''2025TIF0008''),
      example_calon 4 Approved (Some ''2025TIF0009''),
      example_calon 5 Approved (Some ''2025TIF0010''),
      example_calon 6 Pending None]"

definition db_lower :: database where
  "db_lower = example_db ''tif'' [example_calon 1 Pending None]"


section \<open>Properties of the formatting functions\<close>

subsection \<open>Decimal formatting\<close>

lemma of_char_digit_char: "d < 10 \<Longrightarrow> (of_char (digit_char d) :: nat) = 48 + d"
  by (simp add: digit_char_def)

lemma dec_val_snoc: "dec_val (s @ [c]) = 10 * dec_val s + ((of_char c :: nat) - 48)"
  by (simp add: dec_val_def)

lemma dec_val_dec_nat: "dec_val (dec_nat n) = n"
proof (induction n rule: dec_nat.induct)
  case (1 n)
  show ?case
  proof (cases "n < 10")
    case True
    then show ?thesis
      by (simp add: dec_nat.simps [of n] dec_val_def of_char_digit_char)
  next
    case False
    with 1 have "dec_val (dec_nat (n div 10)) = n div 10" by simp
    with False show ?thesis
      by (simp add: dec_nat.simps [of n] dec_val_snoc of_char_digit_char)
  qed
qed

lemma dec_nat_digits: "c \<in> set (dec_nat n) \<Longrightarrow> is_digit c"
proof (induction n arbitrary: c rule: dec_nat.induct)
  case (1 n)
  show ?case
  proof (cases "n < 10")
    case True
    with "1.prems" show ?thesis
      by (simp add: dec_nat.simps [of n] is_digit_def of_char_digit_char)
  next
    case False
    with "1.prems" have "c \<in> set (dec_nat (n div 10)) \<or> c = digit_char (n mod 10)"
      by (auto simp: dec_nat.simps [of n])
    then show ?thesis
    proof
      assume "c \<in> set (dec_nat (n div 10))"
      with False show ?thesis by (simp add: "1.IH")
    next
      assume "c = digit_char (n mod 10)"
      then show ?thesis by (simp add: is_digit_def of_char_digit_char)
    qed
  qed
qed

lemma length_dec_nat_lower: "10 ^ k \<le> n \<Longrightarrow> k < length (dec_nat n)"
proof (induction k arbitrary: n)
  case 0
  then show ?case by (simp add: dec_nat.simps [of n])
next
  case (Suc k)
  then have "10 ^ k \<le> n div 10" by (simp add: less_eq_div_iff_mult_less_eq)
  then have "k < length (dec_nat (n div 10))" by (rule Suc.IH)
  moreover have "(10::nat) \<le> 10 ^ Suc k" by simp
  with Suc.prems have "\<not> n < 10" by linarith
  ultimately show ?case by (simp add: dec_nat.simps [of n])
qed

lemma length_dec_nat_upper: "n < 10 ^ Suc k \<Longrightarrow> length (dec_nat n) \<le> Suc k"
proof (induction k arbitrary: n)
  case 0
  then show ?case by (simp add: dec_nat.simps [of n])
next
  case (Suc k)
  show ?case
  proof (cases "n < 10")
    case True
    then show ?thesis by (simp add: dec_nat.simps [of n])
  next
    case False
    from Suc.prems have "n div 10 < 10 ^ Suc k"
      by (simp add: div_less_iff_less_mult)
    then have "length (dec_nat (n div 10)) \<le> Suc k" by (rule Suc.IH)
    with False show ?thesis by (simp add: dec_nat.simps [of n])
  qed
qed

lemma py_str_nonneg: "0 \<le> n \<Longrightarrow> py_str n = dec_nat (nat n)"
  by (simp add: py_str_def)

lemma length_py_str_four: "1000 \<le> y \<Longrightarrow> y \<le> 9999 \<Longrightarrow> length (py_str y) = 4"
proof -
  assume y: "1000 \<le> y" "y \<le> 9999"
  then have "10 ^ 3 \<le> nat y" and "nat y < 10 ^ Suc 3" by simp_all
  then have "3 < length (dec_nat (nat y))" and "length (dec_nat (nat y)) \<le> Suc 3"
    by (simp_all only: length_dec_nat_lower length_dec_nat_upper)
  with y show ?thesis by (simp add: py_str_nonneg)
qed

lemma length_py_str_wide: "10000 \<le> n \<Longrightarrow> 5 \<le> length (py_str n)"
proof -
  assume n: "10000 \<le> n"
  then have "10 ^ 4 \<le> nat n" by simp
  then have "4 < length (dec_nat (nat n))" by (rule length_dec_nat_lower)
  with n show ?thesis by (simp add: py_str_nonneg)
qed

lemma fmt_04d_pad:
  "0 \<le> n \<Longrightarrow> fmt_04d n = replicate (4 - length (py_str n)) (CHR ''0'') @ py_str n"
  by (simp add: fmt_04d_def zfill_def py_str_nonneg)

lemma fmt_04d_wide: "10000 \<le> n \<Longrightarrow> fmt_04d n = py_str n"
  using length_py_str_wide [of n] by (simp add: fmt_04d_pad)

lemma length_fmt_04d: "0 \<le> n \<Longrightarrow> 4 \<le> length (fmt_04d n)"
  by (simp add: fmt_04d_pad)

lemma length_fmt_04d_small: "0 \<le> n \<Longrightarrow> n \<le> 9999 \<Longrightarrow> length (fmt_04d n) = 4"
proof -
  assume n: "0 \<le> n" "n \<le> 9999"
  then have "nat n < 10 ^ Suc 3" by simp
  then have "length (dec_nat (nat n)) \<le> Suc 3" by (rule length_dec_nat_upper)
  with n show ?thesis by (simp add: fmt_04d_pad py_str_nonneg)
qed

lemma dec_val_zeros: "dec_val (replicate k (CHR ''0'') @ s) = dec_val s"
  by (induction k) (simp_all add: dec_val_def)

lemma dec_val_py_str: "0 \<le> n \<Longrightarrow> dec_val (py_str n) = nat n"
  by (simp add: py_str_nonneg dec_val_dec_nat)

lemma dec_val_fmt_04d: "0 \<le> n \<Longrightarrow> dec_val (fmt_04d n) = nat n"
  by (simp add: fmt_04d_pad dec_val_zeros dec_val_py_str)

subsection \<open>Trimming\<close>

lemma dropWhile_all: "(\<forall>x \<in> set (dropWhile P xs). P x) \<longleftrightarrow> (\<forall>x \<in> set xs. P x)"
proof
  assume a: "\<forall>x \<in> set (dropWhile P xs). P x"
  have "dropWhile P xs = []"
  proof (rule ccontr)
    assume ne: "dropWhile P xs \<noteq> []"
    then have "\<not> P (hd (dropWhile P xs))" by (rule hd_dropWhile)
    moreover from ne have "hd (dropWhile P xs) \<in> set (dropWhile P xs)" by simp
    ultimately show False using a by blast
  qed
  then show "\<forall>x \<in> set xs. P x" by simp
next
  assume "\<forall>x \<in> set xs. P x"
  then show "\<forall>x \<in> set (dropWhile P xs). P x"
    by (auto dest: set_dropWhileD)
qed

lemma py_strip_empty_iff: "py_strip s = [] \<longleftrightarrow> (\<forall>c \<in> set s. py_isspace c)"
  by (simp add: py_strip_def dropWhile_all)

lemma py_upper_empty_iff: "py_upper s = [] \<longleftrightarrow> s = []"
  by (simp add: py_upper_def)

subsection \<open>Evaluating the formatting on literals\<close>

lemma char_of_nat_bits:
  "char_of (n::nat) = Char (odd n) (odd (n div 2)) (odd (n div 4)) (odd (n div 8))
      (odd (n div 16)) (odd (n div 32)) (odd (n div 64)) (odd (n div 128))"
  by (simp add: char_of_def bit_iff_odd_drop_bit drop_bit_eq_div)

lemma replicate_small:
  "replicate 1 x = [x]" "replicate 2 x = [x, x]" "replicate 3 x = [x, x, x]"
  "replicate 4 x = [x, x, x, x]"
  by (simp_all add: numeral_eq_Suc)

lemmas format_eval =
  dec_nat.simps digit_char_def char_of_nat_bits py_upper_def py_strip_def py_isspace_def
  ascii_upper_def fmt_04d_def zfill_def py_str_def replicate_small

lemma py_str_2025: "py_str 2025 = ''2025''"
  by (simp add: format_eval)

lemma fmt_04d_examples:
  "fmt_04d 1 = ''0001''" "fmt_04d 2 = ''0002''" "fmt_04d 3 = ''0003''" "fmt_04d 8 = ''0008''"
  "fmt_04d 10000 = ''10000''"
  by (simp_all add: format_eval)

lemma normalize_examples:
  "py_upper (py_strip ''TIF'') = ''TIF''" "py_upper (py_strip '' si '') = ''SI''"
  "py_upper (py_strip '' tif '') = ''TIF''" "py_upper ''tif'' = ''TIF''" "py_upper ''TIF'' = ''TIF''"
  by (simp_all add: format_eval)

subsection \<open>What trimming and upper-casing leave\<close>

lemma py_strip_prefix: "\<exists>zs. dropWhile py_isspace s = py_strip s @ zs"
proof -
  have "rev (dropWhile py_isspace s) =
          takeWhile py_isspace (rev (dropWhile py_isspace s)) @
          dropWhile py_isspace (rev (dropWhile py_isspace s))"
    by simp
  then have "dropWhile py_isspace s =
          rev (dropWhile py_isspace (rev (dropWhile py_isspace s))) @
          rev (takeWhile py_isspace (rev (dropWhile py_isspace s)))"
    by (metis rev_append rev_rev_ident)
  then show ?thesis by (auto simp: py_strip_def)
qed

lemma py_strip_trimmed:
  assumes "py_strip s \<noteq> []"
  shows "\<not> py_isspace (hd (py_strip s)) \<and> \<not> py_isspace (last (py_strip s))"
proof
  obtain zs where zs: "dropWhile py_isspace s = py_strip s @ zs"
    using py_strip_prefix by blast
  with assms have "dropWhile py_isspace s \<noteq> []" by auto
  then have "\<not> py_isspace (hd (dropWhile py_isspace s))" by (rule hd_dropWhile)
  with zs assms show "\<not> py_isspace (hd (py_strip s))" by simp
next
  from assms have ne: "dropWhile py_isspace (rev (dropWhile py_isspace s)) \<noteq> []"
    by (simp add: py_strip_def)
  then have "\<not> py_isspace (hd (dropWhile py_isspace (rev (dropWhile py_isspace s))))"
    by (rule hd_dropWhile)
  with ne show "\<not> py_isspace (last (py_strip s))"
    by (simp add: py_strip_def last_rev)
qed

lemma ascii_upper_not_lower:
  "\<not> (97 \<le> (of_char (ascii_upper c) :: nat) \<and> (of_char (ascii_upper c) :: nat) \<le> 122)"
  by (auto simp: ascii_upper_def)

lemma py_upper_no_lower:
  "c \<in> set (py_upper s) \<Longrightarrow> \<not> (97 \<le> (of_char c :: nat) \<and> (of_char c :: nat) \<le> 122)"
  using ascii_upper_not_lower by (auto simp: py_upper_def)

lemma py_isspace_ascii_upper: "py_isspace (ascii_upper c) = py_isspace c"
  by (auto simp: py_isspace_def ascii_upper_def)

lemma py_upper_trimmed:
  assumes "py_strip s \<noteq> []"
  shows "\<not> py_isspace (hd (py_upper (py_strip s))) \<and> \<not> py_isspace (last (py_upper (py_strip s)))"
  using assms py_strip_trimmed [OF assms]
  by (simp add: py_upper_def hd_map last_map py_isspace_ascii_upper)

lemma more_examples:
  "py_upper (py_strip ''tif'') = ''TIF''" "py_upper (py_strip ''SI'') = ''SI''"
  "py_str 10000 = ''10000''" "py_strip ''  '' = []"
  by (simp_all add: format_eval)

lemma set_py_strip: "set (py_strip s) \<subseteq> set s"
proof
  fix x
  assume "x \<in> set (py_strip s)"
  then have "x \<in> set (dropWhile py_isspace (rev (dropWhile py_isspace s)))"
    by (simp add: py_strip_def)
  then have "x \<in> set (rev (dropWhile py_isspace s))" by (rule set_dropWhileD)
  then have "x \<in> set (dropWhile py_isspace s)" by simp
  then show "x \<in> set s" by (rule set_dropWhileD)
qed

lemma ascii_upper_ascii: "(of_char c :: nat) < 128 \<Longrightarrow> (of_char (ascii_upper c) :: nat) < 128"
  by (auto simp: ascii_upper_def)

lemma normalised_ascii: "ascii_string s \<Longrightarrow> ascii_string (py_upper (py_strip s))"
  using set_py_strip [of s] by (auto simp: ascii_string_def py_upper_def ascii_upper_ascii)

subsection \<open>The formatted number determines the number\<close>








section \<open>Properties of the counter table\<close>

lemma counter_rows_for_key:
  "distinct (map (\<lambda>c. (year c, kode_prodi c)) rows) \<Longrightarrow>
     filter (\<lambda>c. year c = y \<and> kode_prodi c = k) rows =
       (case find (\<lambda>c. year c = y \<and> kode_prodi c = k) rows of None \<Rightarrow> [] | Some c \<Rightarrow> [c])"
proof (induction rows)
  case Nil
  then show ?case by simp
next
  case (Cons a rows)
  show ?case
  proof (cases "year a = y \<and> kode_prodi a = k")
    case True
    with Cons.prems have "\<forall>c \<in> set rows. \<not> (year c = y \<and> kode_prodi c = k)"
      by (auto simp: image_iff)
    then have "filter (\<lambda>c. year c = y \<and> kode_prodi c = k) rows = []"
      by (simp add: filter_empty_conv)
    with True show ?thesis by simp
  next
    case False
    with Cons show ?thesis by auto
  qed
qed

lemma counter_of_find:
  "counter_of d (y, k) =
     map_option last_seq (find (\<lambda>c. year c = y \<and> kode_prodi c = k) (nim_counters d))"
proof -
  have "map_of (map (\<lambda>c. ((year c, kode_prodi c), last_seq c)) rows) (y, k) =
          map_option last_seq (find (\<lambda>c. year c = y \<and> kode_prodi c = k) rows)" for rows
    by (induction rows) auto
  then show ?thesis by (simp add: counter_of_def)
qed

lemma next_counter_id_fresh: "c \<in> set rows \<Longrightarrow> counter_id c < next_counter_id rows"
proof -
  have "c \<in> set rows \<Longrightarrow> counter_id c \<le> foldr max (map counter_id rows) 0" for rows
    by (induction rows) auto
  then show "c \<in> set rows \<Longrightarrow> counter_id c < next_counter_id rows"
    by (fastforce simp: next_counter_id_def)
qed

lemma counter_of_insert:
  assumes "counter_of d (y, k) = None"
  shows "counter_of (d\<lparr>nim_counters := nim_counters d @
            [\<lparr>counter_id = i, year = y, kode_prodi = k, last_seq = s\<rparr>]\<rparr>) =
         (counter_of d)((y, k) \<mapsto> s)"
proof
  fix key
  show "counter_of (d\<lparr>nim_counters := nim_counters d @
            [\<lparr>counter_id = i, year = y, kode_prodi = k, last_seq = s\<rparr>]\<rparr>) key =
        ((counter_of d)((y, k) \<mapsto> s)) key"
    using assms by (cases "counter_of d key") (auto simp: counter_of_def map_add_def)
qed

lemma counters_ok_insert:
  assumes "counters_ok d" and "counter_of d (y, k) = None"
  shows "counters_ok (d\<lparr>nim_counters := nim_counters d @
            [\<lparr>counter_id = next_counter_id (nim_counters d), year = y, kode_prodi = k,
              last_seq = s\<rparr>]\<rparr>)"
proof -
  have "next_counter_id (nim_counters d) \<notin> counter_id ` set (nim_counters d)"
    using next_counter_id_fresh [of _ "nim_counters d"] by fastforce
  moreover from assms(2) have "(y, k) \<notin> (\<lambda>c. (year c, kode_prodi c)) ` set (nim_counters d)"
    by (force simp: counter_of_def map_of_eq_None_iff image_iff)
  ultimately show ?thesis
    using assms(1) by (simp add: counters_ok_def)
qed

lemma update_counter_rows:
  assumes "distinct (map counter_id rows)" and "distinct (map (\<lambda>c. (year c, kode_prodi c)) rows)"
    and "x \<in> set rows"
  shows "map_of (map (\<lambda>c. ((year c, kode_prodi c), last_seq c))
           (map (\<lambda>c. if counter_id c = counter_id x then c\<lparr>last_seq := s\<rparr> else c) rows)) =
         (map_of (map (\<lambda>c. ((year c, kode_prodi c), last_seq c)) rows))
           ((year x, kode_prodi x) \<mapsto> s)"
  using assms
proof (induction rows)
  case Nil
  then show ?case by simp
next
  case (Cons a rows)
  show ?case
  proof (cases "a = x")
    case True
    with Cons.prems(1) have "\<forall>c \<in> set rows. counter_id c \<noteq> counter_id x"
      by (auto simp: image_iff)
    then have "map (\<lambda>c. if counter_id c = counter_id x then c\<lparr>last_seq := s\<rparr> else c) rows = rows"
      by (simp add: map_idI)
    with True show ?thesis by (auto simp: fun_eq_iff)
  next
    case False
    with Cons.prems(3) have x: "x \<in> set rows" by simp
    with Cons.prems(1) have ne: "counter_id a \<noteq> counter_id x"
      by (auto simp: image_iff)
    from x Cons.prems(2) have nk: "(year a, kode_prodi a) \<noteq> (year x, kode_prodi x)"
      by (auto simp: image_iff)
    from Cons.prems x have "map_of (map (\<lambda>c. ((year c, kode_prodi c), last_seq c))
           (map (\<lambda>c. if counter_id c = counter_id x then c\<lparr>last_seq := s\<rparr> else c) rows)) =
         (map_of (map (\<lambda>c. ((year c, kode_prodi c), last_seq c)) rows))
           ((year x, kode_prodi x) \<mapsto> s)"
      by (intro Cons.IH) simp_all
    with ne nk show ?thesis
      by (auto simp: fun_eq_iff)
  qed
qed

lemma counter_of_update:
  assumes "counters_ok d" and "x \<in> set (nim_counters d)"
  shows "counter_of (update_counter x s d) = (counter_of d)((year x, kode_prodi x) \<mapsto> s)"
  using assms update_counter_rows [of "nim_counters d" x s]
  by (simp add: counter_of_def update_counter_def counters_ok_def)

lemma counters_ok_update: "counters_ok d \<Longrightarrow> counters_ok (update_counter x s d)"
proof -
  have "map counter_id (nim_counters (update_counter x s d)) = map counter_id (nim_counters d)"
    by (auto simp: update_counter_def)
  moreover have "map (\<lambda>c. (year c, kode_prodi c)) (nim_counters (update_counter x s d)) =
          map (\<lambda>c. (year c, kode_prodi c)) (nim_counters d)"
    by (auto simp: update_counter_def)
  ultimately show "counters_ok d \<Longrightarrow> counters_ok (update_counter x s d)"
    by (simp only: counters_ok_def)
qed

lemma update_counter_tables:
  "calon_mahasiswa (update_counter x s d) = calon_mahasiswa d"
  "program_studi (update_counter x s d) = program_studi d"
  by (simp_all add: update_counter_def)

text \<open>What a call with accepted arguments does on a table that keeps its constraints.\<close>

lemma generate_nim_accepted:
  assumes ok: "counters_ok d" and kd: "py_upper (py_strip kp) \<noteq> []"
    and yr: "2000 \<le> tahun" "tahun \<le> 9999"
  shows "generate_nim tahun kp d =
     (case find (\<lambda>c. year c = tahun \<and> kode_prodi c = py_upper (py_strip kp)) (nim_counters d) of
        None \<Rightarrow>
          Inr (py_str tahun @ py_upper (py_strip kp) @ fmt_04d 1,
               d\<lparr>nim_counters := nim_counters d @
                   [\<lparr>counter_id = next_counter_id (nim_counters d), year = tahun,
                     kode_prodi = py_upper (py_strip kp), last_seq = 1\<rparr>]\<rparr>)
      | Some c \<Rightarrow>
          Inr (py_str tahun @ py_upper (py_strip kp) @ fmt_04d (last_seq c + 1),
               update_counter c (last_seq c + 1) d))"
proof (cases "find (\<lambda>c. year c = tahun \<and> kode_prodi c = py_upper (py_strip kp)) (nim_counters d)")
  case None
  then have "\<not> (\<exists>c \<in> set (nim_counters d). year c = tahun \<and> kode_prodi c = py_upper (py_strip kp))"
    by (simp add: find_None_iff)
  with None ok kd yr show ?thesis
    by (simp add: generate_nim_def counter_rows_for_key counters_ok_def insert_counter_def Let_def)
next
  case (Some c)
  with ok kd yr show ?thesis
    by (simp add: generate_nim_def counter_rows_for_key counters_ok_def Let_def)
qed

text \<open>The same, read through \<open>counter_of\<close>.\<close>

lemma generate_nim_effect:
  assumes ok: "counters_ok d" and kd: "py_upper (py_strip kp) \<noteq> []"
    and yr: "2000 \<le> tahun" "tahun \<le> 9999"
  shows "\<exists>d'. generate_nim tahun kp d =
           Inr (py_str tahun @ py_upper (py_strip kp) @
                fmt_04d (case counter_of d (tahun, py_upper (py_strip kp)) of
                           None \<Rightarrow> 1 | Some s \<Rightarrow> s + 1), d') \<and>
         counters_ok d' \<and>
         counter_of d' = (counter_of d)((tahun, py_upper (py_strip kp)) \<mapsto>
           (case counter_of d (tahun, py_upper (py_strip kp)) of None \<Rightarrow> 1 | Some s \<Rightarrow> s + 1)) \<and>
         calon_mahasiswa d' = calon_mahasiswa d \<and> program_studi d' = program_studi d"
proof (cases "find (\<lambda>c. year c = tahun \<and> kode_prodi c = py_upper (py_strip kp)) (nim_counters d)")
  case None
  then have c: "counter_of d (tahun, py_upper (py_strip kp)) = None"
    by (simp add: counter_of_find)
  from None show ?thesis
    by (simp add: generate_nim_accepted [OF ok kd yr] c counter_of_insert [OF c]
        counters_ok_insert [OF ok c])
next
  case (Some c)
  then have c: "counter_of d (tahun, py_upper (py_strip kp)) = Some (last_seq c)"
    by (simp add: counter_of_find)
  from Some have mem: "c \<in> set (nim_counters d)" and key: "year c = tahun"
    "kode_prodi c = py_upper (py_strip kp)"
    by (auto simp: find_Some_iff)
  from Some show ?thesis
    using counter_of_update [OF ok mem, of "last_seq c + 1"]
    by (simp add: generate_nim_accepted [OF ok kd yr] c key counters_ok_update [OF ok]
        update_counter_tables)
qed

lemma generate_nim_rejected:
  "py_upper (py_strip kp) = [] \<Longrightarrow>
     generate_nim tahun kp d = Inl (ValueError ''kode_prodi must be a non-empty string'')"
  "py_upper (py_strip kp) \<noteq> [] \<Longrightarrow> tahun < 2000 \<or> 9999 < tahun \<Longrightarrow>
     generate_nim tahun kp d = Inl (ValueError ''tahun must be a four-digit year'')"
  by (simp_all add: generate_nim_def)

lemma generate_nim_Inr_accepted:
  "generate_nim tahun kp d = Inr r \<Longrightarrow>
     py_upper (py_strip kp) \<noteq> [] \<and> 2000 \<le> tahun \<and> tahun \<le> 9999"
  by (auto simp: generate_nim_def Let_def split: if_splits)

subsection \<open>The example tables\<close>

lemma example_counters_sel [simp]:
  "nim_counters (example_counters rows) = rows"
  "calon_mahasiswa (example_counters rows) = []"
  "program_studi (example_counters rows) = []"
  by (simp_all add: example_counters_def)

lemma db_si_counter_facts:
  "counters_ok db_si_counter"
  "counter_of db_si_counter (2025, ''TIF'') = None"
  "counter_of db_si_counter (2025, ''SI'') = Some 7"
  by (simp_all add: counters_ok_def counter_of_def db_si_counter_def)

lemma db_tif_full_facts:
  "counters_ok db_tif_full"
  "counter_of db_tif_full (2025, ''TIF'') = Some 9999"
  by (simp_all add: counters_ok_def counter_of_def db_tif_full_def)

lemma generate_nim_si_example:
  "generate_nim 2025 '' si '' db_si_counter =
     Inr (''2025SI0008'',
          example_counters [\<lparr>counter_id = 1, year = 2025, kode_prodi = ''SI'', last_seq = 8\<rparr>])"
  by (simp add: generate_nim_def db_si_counter_def example_counters_def update_counter_def
      Let_def format_eval)

lemma generate_nim_tif_example:
  "generate_nim 2025 ''TIF'' db_si_counter =
     Inr (''2025TIF0001'',
          example_counters [\<lparr>counter_id = 1, year = 2025, kode_prodi = ''SI'', last_seq = 7\<rparr>,
                            \<lparr>counter_id = 2, year = 2025, kode_prodi = ''TIF'', last_seq = 1\<rparr>])"
  by (simp add: generate_nim_def db_si_counter_def example_counters_def insert_counter_def
      next_counter_id_def Let_def format_eval)

section \<open>Properties of the approval handlers\<close>

lemma example_calon_sel [simp]:
  "calon_id (example_calon i st n) = i" "status (example_calon i st n) = st"
  "nim (example_calon i st n) = n" "program_studi_id (example_calon i st n) = 1"
  by (simp_all add: example_calon_def)

lemma example_prodi_sel [simp]:
  "prodi_id (example_prodi k) = 1" "kode (example_prodi k) = k"
  by (simp_all add: example_prodi_def)

lemma example_db_sel [simp]:
  "program_studi (example_db k rows) = [example_prodi k]"
  "calon_mahasiswa (example_db k rows) = rows"
  "nim_counters (example_db k rows) = []"
  by (simp_all add: example_db_def)

lemma commit_approval_counters:
  "commit_approval d calon n t = Some d' \<Longrightarrow>
     nim_counters d' = nim_counters d \<and> program_studi d' = program_studi d"
  by (auto simp: commit_approval_def split: if_splits)

lemma main_attempts_exhausted:
  "(\<forall>a \<in> set atts. commit_approval d calon (prefix @ fmt_04d (int (ec + 1 + a))) (clock a) = None)
     \<Longrightarrow> main_attempts d calon prefix ec clock atts =
           (Inl (HTTPException 409 ''Could not generate unique NIM; please retry''), d)"
  by (induction atts) (simp_all add: Let_def)

lemma cli_attempts_exhausted:
  "(\<forall>a \<in> set atts. commit_approval d calon (prefix @ fmt_04d (int (ec + 1 + a))) (clock a) = None)
     \<Longrightarrow> cli_attempts d calon prefix ec clock atts =
           (Inr (13, [''ERROR: Gagal generate unique NIM setelah 5 percobaan'']), d)"
  by (induction atts) (simp_all add: Let_def)

lemma main_attempts_first:
  "(\<forall>b \<in> set pre. commit_approval d calon (prefix @ fmt_04d (int (ec + 1 + b))) (clock b) = None)
     \<Longrightarrow> commit_approval d calon (prefix @ fmt_04d (int (ec + 1 + a))) (clock a) = Some d'
     \<Longrightarrow> main_attempts d calon prefix ec clock (pre @ a # post) =
           (Inr (Some (prefix @ fmt_04d (int (ec + 1 + a)))), d')"
  by (induction pre) (simp_all add: Let_def)

lemma cli_attempts_first:
  "(\<forall>b \<in> set pre. commit_approval d calon (prefix @ fmt_04d (int (ec + 1 + b))) (clock b) = None)
     \<Longrightarrow> commit_approval d calon (prefix @ fmt_04d (int (ec + 1 + a))) (clock a) = Some d'
     \<Longrightarrow> cli_attempts d calon prefix ec clock (pre @ a # post) =
           (Inr (0, [''SUCCESS: Calon di-approve, NIM generated: '' @
                     prefix @ fmt_04d (int (ec + 1 + a))]), d')"
  by (induction pre) (simp_all add: Let_def)

lemma main_attempts_counters:
  "nim_counters (snd (main_attempts d calon prefix ec clock atts)) = nim_counters d"
  by (induction atts) (auto simp: Let_def commit_approval_counters split: option.splits)

lemma cli_attempts_counters:
  "nim_counters (snd (cli_attempts d calon prefix ec clock atts)) = nim_counters d"
  by (induction atts) (auto simp: Let_def commit_approval_counters split: option.splits)

lemma approve_mahasiswa_counters:
  "nim_counters (snd (approve_mahasiswa yr clock cid d)) = nim_counters d"
  by (simp add: approve_mahasiswa_def Let_def main_attempts_counters split: option.splits)

lemma approve_counters:
  "nim_counters (snd (approve yr clock args_id d)) = nim_counters d"
  by (simp add: approve_def Let_def cli_attempts_counters split: option.splits)

lemma approve_mahasiswa_pending:
  "find (\<lambda>r. calon_id r = cid) (calon_mahasiswa d) = Some calon \<Longrightarrow> status calon = Pending \<Longrightarrow>
   find (\<lambda>p. prodi_id p = program_studi_id calon) (program_studi d) = Some prodi \<Longrightarrow>
   approve_mahasiswa yr clock cid d =
     main_attempts d calon (py_str yr @ kode prodi)
       (nim_like_count (py_str yr @ kode prodi @ ''%'') d) clock [0..<5]"
  by (simp add: approve_mahasiswa_def Let_def)

lemma approve_pending:
  "find (\<lambda>r. calon_id r = cid) (calon_mahasiswa d) = Some calon \<Longrightarrow> status calon = Pending \<Longrightarrow>
   find (\<lambda>p. prodi_id p = program_studi_id calon) (program_studi d) = Some prodi \<Longrightarrow>
   approve yr clock (Some cid) d =
     cli_attempts d calon (py_str yr @ py_upper (kode prodi))
       (nim_like_count (py_str yr @ py_upper (kode prodi) @ ''%'') d) clock [0..<5]"
  by (simp add: approve_def Let_def)

lemma upt_split: "a < n \<Longrightarrow> [0..<n] = [0..<a] @ a # [Suc a..<n]"
proof -
  assume "a < n"
  then have "[0..<n] = [0..<a] @ [a..<n]"
    using upt_add_eq_append [of 0 a "n - a"] by simp
  with \<open>a < n\<close> show ?thesis
    by (simp add: upt_conv_Cons)
qed

subsection \<open>The example candidates\<close>

lemmas like_eval = nim_like_count_def ascii_upper_def char_of_nat_bits

lemma db_gap_facts:
  "find (\<lambda>r. calon_id r = 2) (calon_mahasiswa db_gap) = Some (example_calon 2 Pending None)"
  "find (\<lambda>p. prodi_id p = program_studi_id (example_calon 2 Pending None)) (program_studi db_gap) =
     Some (example_prodi ''TIF'')"
  "nim_like_count ''2025TIF%'' db_gap = 1"
  "nim_counters db_gap = []"
  by (simp_all add: db_gap_def like_eval)

lemma db_crowded_facts:
  "find (\<lambda>r. calon_id r = 6) (calon_mahasiswa db_crowded) = Some (example_calon 6 Pending None)"
  "find (\<lambda>p. prodi_id p = program_studi_id (example_calon 6 Pending None))
     (program_studi db_crowded) = Some (example_prodi ''TIF'')"
  "nim_like_count ''2025TIF%'' db_crowded = 5"
  by (simp_all add: db_crowded_def like_eval)

lemma db_lower_facts:
  "find (\<lambda>r. calon_id r = 1) (calon_mahasiswa db_lower) = Some (example_calon 1 Pending None)"
  "find (\<lambda>p. prodi_id p = program_studi_id (example_calon 1 Pending None))
     (program_studi db_lower) = Some (example_prodi ''tif'')"
  "nim_like_count ''2025tif%'' db_lower = 0"
  "nim_like_count ''2025TIF%'' db_lower = 0"
  by (simp_all add: db_lower_def like_eval)

lemma fmt_04d_more:
  "fmt_04d 6 = ''0006''" "fmt_04d 7 = ''0007''" "fmt_04d 9 = ''0009''" "fmt_04d 10 = ''0010''"
  by (simp_all add: format_eval)

lemma db_gap_commits:
  "commit_approval db_gap (example_calon 2 Pending None) ''2025TIF0002'' t = None"
  "commit_approval db_gap (example_calon 2 Pending None) ''2025TIF0003'' t =
     Some (db_gap\<lparr>calon_mahasiswa :=
       [example_calon 1 Approved (Some ''2025TIF0002''),
        (example_calon 2 Pending None)
          \<lparr>status := Approved, approved_at := Some t, nim := Some ''2025TIF0003''\<rparr>]\<rparr>)"
  by (simp_all add: commit_approval_def db_gap_def)

lemma db_crowded_commits:
  "commit_approval db_crowded (example_calon 6 Pending None) ''2025TIF0006'' t = None"
  "commit_approval db_crowded (example_calon 6 Pending None) ''2025TIF0007'' t = None"
  "commit_approval db_crowded (example_calon 6 Pending None) ''2025TIF0008'' t = None"
  "commit_approval db_crowded (example_calon 6 Pending None) ''2025TIF0009'' t = None"
  "commit_approval db_crowded (example_calon 6 Pending None) ''2025TIF0010'' t = None"
  by (simp_all add: commit_approval_def db_crowded_def)

lemma db_lower_commits:
  "commit_approval db_lower (example_calon 1 Pending None) ''2025tif0001'' t =
     Some (db_lower\<lparr>calon_mahasiswa :=
       [(example_calon 1 Pending None)
          \<lparr>status := Approved, approved_at := Some t, nim := Some ''2025tif0001''\<rparr>]\<rparr>)"
  "commit_approval db_lower (example_calon 1 Pending None) ''2025TIF0001'' t =
     Some (db_lower\<lparr>calon_mahasiswa :=
       [(example_calon 1 Pending None)
          \<lparr>status := Approved, approved_at := Some t, nim := Some ''2025TIF0001''\<rparr>]\<rparr>)"
  by (simp_all add: commit_approval_def db_lower_def)

lemma upt_5: "[0..<5] = [0, 1, 2, 3, 4]"
  by (simp add: upt_rec)

lemma less_5_cases: "a < (5::nat) \<Longrightarrow> a = 0 \<or> a = 1 \<or> a = 2 \<or> a = 3 \<or> a = 4"
  by arith

lemma db_crowded_all_taken:
  "\<forall>a<5. commit_approval db_crowded (example_calon 6 Pending None)
            (py_str 2025 @ k @ fmt_04d (int (nim_like_count (py_str 2025 @ k @ ''%'') db_crowded + 1 + a)))
            (clock a) = None" if "k = ''TIF''"
proof (intro allI impI)
  fix a :: nat
  assume "a < 5"
  then have "a = 0 \<or> a = 1 \<or> a = 2 \<or> a = 3 \<or> a = 4" by (rule less_5_cases)
  then show "commit_approval db_crowded (example_calon 6 Pending None)
            (py_str 2025 @ k @ fmt_04d (int (nim_like_count (py_str 2025 @ k @ ''%'') db_crowded + 1 + a)))
            (clock a) = None"
    using that
    by (elim disjE)
      (simp_all add: py_str_2025 db_crowded_facts fmt_04d_more fmt_04d_examples db_crowded_commits)
qed

subsection \<open>The two handlers side by side\<close>

lemma attempts_agree:
  "snd (cli_attempts d calon prefix ec clock atts) = snd (main_attempts d calon prefix ec clock atts) \<and>
   fst (cli_attempts d calon prefix ec clock atts) =
     (case fst (main_attempts d calon prefix ec clock atts) of
        Inr (Some n) \<Rightarrow> Inr (0, [''SUCCESS: Calon di-approve, NIM generated: '' @ n])
      | _ \<Rightarrow> Inr (13, [''ERROR: Gagal generate unique NIM setelah 5 percobaan'']))"
  by (induction atts) (simp_all add: Let_def split: option.splits)

text \<open>
  When upper-casing leaves the stored program code as it is, the two handlers try the
  same NIMs and leave the same database.
\<close>

lemma approve_handlers_agree:
  assumes "find (\<lambda>r. calon_id r = cid) (calon_mahasiswa d) = Some calon"
    and "status calon = Pending"
    and "find (\<lambda>p. prodi_id p = program_studi_id calon) (program_studi d) = Some prodi"
    and "py_upper (kode prodi) = kode prodi"
  shows "snd (approve yr clock (Some cid) d) = snd (approve_mahasiswa yr clock cid d) \<and>
         fst (approve yr clock (Some cid) d) =
           (case fst (approve_mahasiswa yr clock cid d) of
              Inr (Some n) \<Rightarrow> Inr (0, [''SUCCESS: Calon di-approve, NIM generated: '' @ n])
            | _ \<Rightarrow> Inr (13, [''ERROR: Gagal generate unique NIM setelah 5 percobaan'']))"
  unfolding approve_pending [OF assms(1-3)] approve_mahasiswa_pending [OF assms(1-3)] assms(4)
  by (rule attempts_agree)

section \<open>Properties of serial schedules\<close>









section \<open>The allocator \<^verbatim>\<open>generate_nim\<close>\<close>

subsection \<open>The format of the NIM\<close>

text \<open>
  C2. On a counter table that keeps its constraints and has no row for (2025, \<^verbatim>\<open>TIF\<close>),
  \<^verbatim>\<open>generate_nim(2025, "TIF")\<close> returns \<^verbatim>\<open>2025TIF0001\<close> and the call that follows
  returns \<^verbatim>\<open>2025TIF0002\<close>. In general a returned NIM is the year in four digits, the
  normalised program code, and the new value of the counter in decimal, filled with zeros
  on the left to at least four characters.
\<close>

theorem generate_nim_format:
  assumes "counters_ok d"
  shows "(counter_of d (2025, ''TIF'') = None \<longrightarrow>
            (\<exists>d1 d2. generate_nim 2025 ''TIF'' d = Inr (''2025TIF0001'', d1) \<and>
                     generate_nim 2025 ''TIF'' d1 = Inr (''2025TIF0002'', d2))) \<and>
         (\<forall>n d'. generate_nim tahun kp d = Inr (n, d') \<longrightarrow>
            (\<exists>sq. counter_of d' (tahun, py_upper (py_strip kp)) = Some sq \<and>
                  n = py_str tahun @ py_upper (py_strip kp) @ fmt_04d sq \<and>
                  length (py_str tahun) = 4 \<and>
                  (0 \<le> sq \<longrightarrow>
                     fmt_04d sq = replicate (4 - length (py_str sq)) (CHR ''0'') @ py_str sq \<and>
                     4 \<le> length (fmt_04d sq) \<and> dec_val (fmt_04d sq) = nat sq)))"
proof (intro conjI impI allI)
  assume none: "counter_of d (2025, ''TIF'') = None"
  have kd: "py_upper (py_strip ''TIF'') \<noteq> []" by (simp add: normalize_examples)
  from generate_nim_effect [OF assms kd, of 2025]
  obtain d1 where d1: "generate_nim 2025 ''TIF'' d = Inr (''2025TIF0001'', d1)"
    and ok1: "counters_ok d1"
    and c1: "counter_of d1 = (counter_of d)((2025, ''TIF'') \<mapsto> 1)"
    by (auto simp: none normalize_examples py_str_2025 fmt_04d_examples)
  from generate_nim_effect [OF ok1 kd, of 2025]
  obtain d2 where "generate_nim 2025 ''TIF'' d1 = Inr (''2025TIF0002'', d2)"
    by (auto simp: c1 normalize_examples py_str_2025 fmt_04d_examples)
  with d1 show "\<exists>d1 d2. generate_nim 2025 ''TIF'' d = Inr (''2025TIF0001'', d1) \<and>
                     generate_nim 2025 ''TIF'' d1 = Inr (''2025TIF0002'', d2)"
    by blast
next
  fix n d'
  assume gen: "generate_nim tahun kp d = Inr (n, d')"
  then have acc: "py_upper (py_strip kp) \<noteq> []" "2000 \<le> tahun" "tahun \<le> 9999"
    using generate_nim_Inr_accepted [of tahun kp d "(n, d')"] by simp_all
  define sq where "sq = (case counter_of d (tahun, py_upper (py_strip kp)) of
                           None \<Rightarrow> 1 | Some s \<Rightarrow> s + 1)"
  from generate_nim_effect [OF assms acc] gen
  have n: "n = py_str tahun @ py_upper (py_strip kp) @ fmt_04d sq"
    and c: "counter_of d' = (counter_of d)((tahun, py_upper (py_strip kp)) \<mapsto> sq)"
    by (auto simp: sq_def)
  from acc have len: "length (py_str tahun) = 4"
    by (intro length_py_str_four) simp_all
  have "0 \<le> sq \<longrightarrow>
          fmt_04d sq = replicate (4 - length (py_str sq)) (CHR ''0'') @ py_str sq \<and>
          4 \<le> length (fmt_04d sq) \<and> dec_val (fmt_04d sq) = nat sq"
    using fmt_04d_pad [of sq] length_fmt_04d [of sq] dec_val_fmt_04d [of sq] by simp
  moreover have "counter_of d' (tahun, py_upper (py_strip kp)) = Some sq"
    by (simp add: c)
  moreover note n len
  ultimately show "\<exists>sq. counter_of d' (tahun, py_upper (py_strip kp)) = Some sq \<and>
              n = py_str tahun @ py_upper (py_strip kp) @ fmt_04d sq \<and>
              length (py_str tahun) = 4 \<and>
              (0 \<le> sq \<longrightarrow>
                 fmt_04d sq = replicate (4 - length (py_str sq)) (CHR ''0'') @ py_str sq \<and>
                 4 \<le> length (fmt_04d sq) \<and> dec_val (fmt_04d sq) = nat sq)"
    by blast
qed

theorem generate_nim_format_witness:
  "counters_ok db_si_counter \<and>
   counter_of db_si_counter (2025, ''TIF'') = None \<and>
   (\<exists>d1 d2. generate_nim 2025 ''TIF'' db_si_counter = Inr (''2025TIF0001'', d1) \<and>
            generate_nim 2025 ''TIF'' d1 = Inr (''2025TIF0002'', d2)) \<and>
   generate_nim 2025 '' si '' db_si_counter =
     Inr (''2025SI0008'',
          example_counters [\<lparr>counter_id = 1, year = 2025, kode_prodi = ''SI'', last_seq = 8\<rparr>]) \<and>
   counter_of
     (example_counters [\<lparr>counter_id = 1, year = 2025, kode_prodi = ''SI'', last_seq = 8\<rparr>])
     (2025, ''SI'') = Some 8 \<and>
   ''2025SI0008'' = py_str 2025 @ py_upper (py_strip '' si '') @ fmt_04d 8 \<and>
   length (py_str 2025) = 4 \<and>
   fmt_04d 8 = replicate (4 - length (py_str 8)) (CHR ''0'') @ py_str 8 \<and>
   4 \<le> length (fmt_04d 8) \<and> dec_val (fmt_04d 8) = 8"
proof -
  note inst = generate_nim_format [OF db_si_counter_facts(1), of 2025 "'' si ''"]
  have first: "\<exists>d1 d2. generate_nim 2025 ''TIF'' db_si_counter = Inr (''2025TIF0001'', d1) \<and>
                       generate_nim 2025 ''TIF'' d1 = Inr (''2025TIF0002'', d2)"
    using inst [THEN conjunct1] db_si_counter_facts(2) by (rule mp)
  from inst [THEN conjunct2, rule_format, OF generate_nim_si_example]
  obtain sq where sq: "counter_of
       (example_counters [\<lparr>counter_id = 1, year = 2025, kode_prodi = ''SI'', last_seq = 8\<rparr>])
       (2025, py_upper (py_strip '' si '')) = Some sq"
    and n: "''2025SI0008'' = py_str 2025 @ py_upper (py_strip '' si '') @ fmt_04d sq"
    and len: "length (py_str 2025) = 4"
    and pad: "0 \<le> sq \<longrightarrow>
       fmt_04d sq = replicate (4 - length (py_str sq)) (CHR ''0'') @ py_str sq \<and>
       4 \<le> length (fmt_04d sq) \<and> dec_val (fmt_04d sq) = nat sq"
    by (elim exE conjE) (rule that)
  from sq have sq8: "sq = 8" by (simp add: counter_of_def normalize_examples)
  from sq have c8: "counter_of
       (example_counters [\<lparr>counter_id = 1, year = 2025, kode_prodi = ''SI'', last_seq = 8\<rparr>])
       (2025, ''SI'') = Some 8"
    by (simp add: counter_of_def)
  have pad8: "fmt_04d 8 = replicate (4 - length (py_str 8)) (CHR ''0'') @ py_str 8 \<and>
       4 \<le> length (fmt_04d 8) \<and> dec_val (fmt_04d 8) = nat 8"
    using pad unfolding sq8 by (rule mp) simp
  have val8: "dec_val (fmt_04d 8) = 8"
    using pad8 [THEN conjunct2, THEN conjunct2] by simp
  from n sq8 have n8: "''2025SI0008'' = py_str 2025 @ py_upper (py_strip '' si '') @ fmt_04d 8"
    by simp
  from db_si_counter_facts(1,2) first generate_nim_si_example c8 n8 len
    pad8 [THEN conjunct1] pad8 [THEN conjunct2, THEN conjunct1] val8
  show ?thesis by (intro conjI)
qed

subsection \<open>The counter rows\<close>

text \<open>
  C3. A successful \<^verbatim>\<open>generate_nim\<close> keeps the key (year, kode_prodi) unique, creates the
  row of a key that has none with \<^verbatim>\<open>last_seq = 1\<close> and returns sequence 1 for it, raises
  the \<^verbatim>\<open>last_seq\<close> of a key that has a row by exactly one, leaves every other key as it
  was and never lowers or deletes a row; the two approval handlers do not touch the table.
\<close>

theorem counter_row_invariant:
  assumes "counters_ok d" and "generate_nim tahun kp d = Inr (n, d')"
  shows "counters_ok d' \<and>
         (counter_of d (tahun, py_upper (py_strip kp)) = None \<longrightarrow>
            counter_of d' (tahun, py_upper (py_strip kp)) = Some 1 \<and>
            n = py_str tahun @ py_upper (py_strip kp) @ fmt_04d 1) \<and>
         (\<forall>s. counter_of d (tahun, py_upper (py_strip kp)) = Some s \<longrightarrow>
            counter_of d' (tahun, py_upper (py_strip kp)) = Some (s + 1) \<and>
            n = py_str tahun @ py_upper (py_strip kp) @ fmt_04d (s + 1)) \<and>
         (\<forall>key. key \<noteq> (tahun, py_upper (py_strip kp)) \<longrightarrow> counter_of d' key = counter_of d key) \<and>
         (\<forall>key s. counter_of d key = Some s \<longrightarrow>
            (\<exists>s'. counter_of d' key = Some s' \<and> s \<le> s')) \<and>
         nim_counters (snd (approve_mahasiswa yr clock cid d)) = nim_counters d \<and>
         nim_counters (snd (approve yr clock args_id d)) = nim_counters d"
proof -
  from assms(2) have acc: "py_upper (py_strip kp) \<noteq> []" "2000 \<le> tahun" "tahun \<le> 9999"
    using generate_nim_Inr_accepted [of tahun kp d "(n, d')"] by simp_all
  define sq where "sq = (case counter_of d (tahun, py_upper (py_strip kp)) of
                           None \<Rightarrow> 1 | Some s \<Rightarrow> s + 1)"
  from generate_nim_effect [OF assms(1) acc] assms(2)
  have n: "n = py_str tahun @ py_upper (py_strip kp) @ fmt_04d sq"
    and ok: "counters_ok d'"
    and c: "counter_of d' = (counter_of d)((tahun, py_upper (py_strip kp)) \<mapsto> sq)"
    by (auto simp: sq_def)
  have mono: "\<exists>s'. counter_of d' key = Some s' \<and> s \<le> s'" if "counter_of d key = Some s" for key s
    using that by (cases "key = (tahun, py_upper (py_strip kp))") (simp_all add: c sq_def)
  from n ok c mono show ?thesis
    by (simp add: sq_def approve_mahasiswa_counters approve_counters)
qed

theorem counter_row_invariant_witness:
  "counters_ok db_si_counter \<and>
   generate_nim 2025 '' si '' db_si_counter =
     Inr (''2025SI0008'',
          example_counters [\<lparr>counter_id = 1, year = 2025, kode_prodi = ''SI'', last_seq = 8\<rparr>]) \<and>
   counters_ok
     (example_counters [\<lparr>counter_id = 1, year = 2025, kode_prodi = ''SI'', last_seq = 8\<rparr>]) \<and>
   counter_of db_si_counter (2025, ''SI'') = Some 7 \<and>
   counter_of
     (example_counters [\<lparr>counter_id = 1, year = 2025, kode_prodi = ''SI'', last_seq = 8\<rparr>])
     (2025, ''SI'') = Some (7 + 1) \<and>
   counter_of
     (example_counters [\<lparr>counter_id = 1, year = 2025, kode_prodi = ''SI'', last_seq = 8\<rparr>])
     (2025, ''TIF'') = counter_of db_si_counter (2025, ''TIF'') \<and>
   generate_nim 2025 ''TIF'' db_si_counter =
     Inr (''2025TIF0001'',
          example_counters [\<lparr>counter_id = 1, year = 2025, kode_prodi = ''SI'', last_seq = 7\<rparr>,
                            \<lparr>counter_id = 2, year = 2025, kode_prodi = ''TIF'', last_seq = 1\<rparr>]) \<and>
   counter_of db_si_counter (2025, ''TIF'') = None \<and>
   counter_of
     (example_counters [\<lparr>counter_id = 1, year = 2025, kode_prodi = ''SI'', last_seq = 7\<rparr>,
                        \<lparr>counter_id = 2, year = 2025, kode_prodi = ''TIF'', last_seq = 1\<rparr>])
     (2025, ''TIF'') = Some 1 \<and>
   (\<exists>s'. counter_of
      (example_counters [\<lparr>counter_id = 1, year = 2025, kode_prodi = ''SI'', last_seq = 7\<rparr>,
                         \<lparr>counter_id = 2, year = 2025, kode_prodi = ''TIF'', last_seq = 1\<rparr>])
      (2025, ''SI'') = Some s' \<and> 7 \<le> s')"
proof -
  note upd = counter_row_invariant [OF db_si_counter_facts(1) generate_nim_si_example,
      of 2025 "\<lambda>a. 0" 1 None, unfolded normalize_examples]
  note ins = counter_row_invariant [OF db_si_counter_facts(1) generate_nim_tif_example,
      of 2025 "\<lambda>a. 0" 1 None, unfolded normalize_examples]
  from upd have ok8: "counters_ok
     (example_counters [\<lparr>counter_id = 1, year = 2025, kode_prodi = ''SI'', last_seq = 8\<rparr>])"
    by (rule conjunct1)
  have c8: "counter_of
     (example_counters [\<lparr>counter_id = 1, year = 2025, kode_prodi = ''SI'', last_seq = 8\<rparr>])
     (2025, ''SI'') = Some (7 + 1)"
    using upd [THEN conjunct2, THEN conjunct2, THEN conjunct1, rule_format,
        OF db_si_counter_facts(3)]
    by (rule conjunct1)
  have ne: "(2025::int, ''TIF'') \<noteq> (2025, ''SI'')" by simp
  have other: "counter_of
     (example_counters [\<lparr>counter_id = 1, year = 2025, kode_prodi = ''SI'', last_seq = 8\<rparr>])
     (2025, ''TIF'') = counter_of db_si_counter (2025, ''TIF'')"
    using upd [THEN conjunct2, THEN conjunct2, THEN conjunct2, THEN conjunct1, rule_format,
        OF ne] .
  have c1: "counter_of
     (example_counters [\<lparr>counter_id = 1, year = 2025, kode_prodi = ''SI'', last_seq = 7\<rparr>,
                        \<lparr>counter_id = 2, year = 2025, kode_prodi = ''TIF'', last_seq = 1\<rparr>])
     (2025, ''TIF'') = Some 1"
    using ins [THEN conjunct2, THEN conjunct1, rule_format, OF db_si_counter_facts(2)]
    by (rule conjunct1)
  have mono: "\<exists>s'. counter_of
      (example_counters [\<lparr>counter_id = 1, year = 2025, kode_prodi = ''SI'', last_seq = 7\<rparr>,
                         \<lparr>counter_id = 2, year = 2025, kode_prodi = ''TIF'', last_seq = 1\<rparr>])
      (2025, ''SI'') = Some s' \<and> 7 \<le> s'"
    using ins [THEN conjunct2, THEN conjunct2, THEN conjunct2, THEN conjunct2, THEN conjunct1,
        rule_format, OF db_si_counter_facts(3)] .
  from db_si_counter_facts(1) generate_nim_si_example ok8 db_si_counter_facts(3) c8 other
    generate_nim_tif_example db_si_counter_facts(2) c1 mono
  show ?thesis by (intro conjI)
qed

subsection \<open>Sequences wider than four digits\<close>

text \<open>
  C8. When the counter of the key stands at 9999 or more, the NIM ends in the full decimal
  representation of the next sequence: five digits or more, nothing cut and nothing
  wrapped. Below that the sequence takes exactly four characters.
\<close>

theorem wide_sequence_not_truncated:
  assumes "counters_ok d" and "py_upper (py_strip kp) \<noteq> []"
    and "2000 \<le> tahun" and "tahun \<le> 9999"
    and "counter_of d (tahun, py_upper (py_strip kp)) = Some s"
  shows "(9999 \<le> s \<longrightarrow>
            (\<exists>d'. generate_nim tahun kp d =
                     Inr (py_str tahun @ py_upper (py_strip kp) @ py_str (s + 1), d')) \<and>
            5 \<le> length (py_str (s + 1)) \<and> dec_val (py_str (s + 1)) = nat (s + 1) \<and>
            (\<forall>c \<in> set (py_str (s + 1)). is_digit c)) \<and>
         (0 \<le> s \<and> s < 9999 \<longrightarrow>
            (\<exists>d'. generate_nim tahun kp d =
                     Inr (py_str tahun @ py_upper (py_strip kp) @ fmt_04d (s + 1), d')) \<and>
            length (fmt_04d (s + 1)) = 4 \<and> dec_val (fmt_04d (s + 1)) = nat (s + 1))"
proof -
  from generate_nim_effect [OF assms(1-4)] assms(5)
  have gen: "\<exists>d'. generate_nim tahun kp d =
                Inr (py_str tahun @ py_upper (py_strip kp) @ fmt_04d (s + 1), d')"
    by auto
  have wide: "fmt_04d (s + 1) = py_str (s + 1)" "5 \<le> length (py_str (s + 1))"
    "dec_val (py_str (s + 1)) = nat (s + 1)" "\<forall>c \<in> set (py_str (s + 1)). is_digit c"
    if "9999 \<le> s"
    using that fmt_04d_wide [of "s + 1"] length_py_str_wide [of "s + 1"]
      dec_val_py_str [of "s + 1"] dec_nat_digits [of _ "nat (s + 1)"]
    by (simp_all add: py_str_nonneg)
  have small: "length (fmt_04d (s + 1)) = 4" "dec_val (fmt_04d (s + 1)) = nat (s + 1)"
    if "0 \<le> s" "s < 9999"
    using that length_fmt_04d_small [of "s + 1"] dec_val_fmt_04d [of "s + 1"] by simp_all
  from gen wide small show ?thesis by auto
qed

theorem wide_sequence_not_truncated_witness:
  "counters_ok db_tif_full \<and>
   counter_of db_tif_full (2025, ''TIF'') = Some 9999 \<and>
   (\<exists>d'. generate_nim 2025 ''tif'' db_tif_full = Inr (''2025TIF10000'', d')) \<and>
   5 \<le> length (py_str 10000) \<and> dec_val (py_str 10000) = 10000 \<and>
   counters_ok db_si_counter \<and>
   counter_of db_si_counter (2025, ''SI'') = Some 7 \<and>
   (\<exists>d'. generate_nim 2025 ''SI'' db_si_counter = Inr (''2025SI0008'', d')) \<and>
   length (fmt_04d 8) = 4 \<and> dec_val (fmt_04d 8) = 8"
proof -
  have kd: "py_upper (py_strip ''tif'') \<noteq> []" "py_upper (py_strip ''SI'') \<noteq> []"
    by (simp_all add: more_examples)
  have c: "counter_of db_tif_full (2025, py_upper (py_strip ''tif'')) = Some 9999"
    "counter_of db_si_counter (2025, py_upper (py_strip ''SI'')) = Some 7"
    by (simp_all add: more_examples db_tif_full_facts db_si_counter_facts)
  have "(9999::int) \<le> 9999" by simp
  with wide_sequence_not_truncated [OF db_tif_full_facts(1) kd(1) _ _ c(1), THEN conjunct1]
  have wide: "(\<exists>d'. generate_nim 2025 ''tif'' db_tif_full =
                     Inr (py_str 2025 @ py_upper (py_strip ''tif'') @ py_str (9999 + 1), d')) \<and>
            5 \<le> length (py_str (9999 + 1)) \<and> dec_val (py_str (9999 + 1)) = nat (9999 + 1) \<and>
            (\<forall>c \<in> set (py_str (9999 + 1)). is_digit c)"
    by simp
  have "(0::int) \<le> 7 \<and> (7::int) < 9999" by simp
  with wide_sequence_not_truncated [OF db_si_counter_facts(1) kd(2) _ _ c(2), THEN conjunct2]
  have small: "(\<exists>d'. generate_nim 2025 ''SI'' db_si_counter =
                     Inr (py_str 2025 @ py_upper (py_strip ''SI'') @ fmt_04d (7 + 1), d')) \<and>
            length (fmt_04d (7 + 1)) = 4 \<and> dec_val (fmt_04d (7 + 1)) = nat (7 + 1)"
    by simp
  from wide have w1: "\<exists>d'. generate_nim 2025 ''tif'' db_tif_full = Inr (''2025TIF10000'', d')"
    and w2: "5 \<le> length (py_str 10000)" and w3: "dec_val (py_str 10000) = 10000"
    by (simp_all add: more_examples py_str_2025)
  from small have s1: "\<exists>d'. generate_nim 2025 ''SI'' db_si_counter = Inr (''2025SI0008'', d')"
    and s2: "length (fmt_04d 8) = 4" and s3: "dec_val (fmt_04d 8) = 8"
    by (simp_all add: more_examples py_str_2025 fmt_04d_examples)
  from db_tif_full_facts w1 w2 w3 db_si_counter_facts(1,3) s1 s2 s3
  show ?thesis by (intro conjI)
qed

subsection \<open>NIMs issued one after another\<close>




subsection \<open>The accepted arguments\<close>

text \<open>
  C9, for ASCII program codes. \<^verbatim>\<open>generate_nim\<close> raises \<^verbatim>\<open>ValueError\<close> when the program
  code is empty or whitespace only, or when the year is outside 2000..9999. Every other
  call, on a counter table that keeps its constraints, returns a NIM whose program code is
  the argument trimmed and upper-cased: it is ASCII, it is not empty, it neither starts nor
  ends with whitespace and it has no lower-case letter.
\<close>

theorem generate_nim_input_constraints:
  assumes "ascii_string kp"
  shows "((\<forall>c \<in> set kp. py_isspace c) \<or> tahun < 2000 \<or> 9999 < tahun \<longrightarrow>
            (\<exists>msg. generate_nim tahun kp d = Inl (ValueError msg))) \<and>
         (\<not> (\<forall>c \<in> set kp. py_isspace c) \<and> 2000 \<le> tahun \<and> tahun \<le> 9999 \<and> counters_ok d \<longrightarrow>
            (\<exists>sq d'. generate_nim tahun kp d =
                       Inr (py_str tahun @ py_upper (py_strip kp) @ fmt_04d sq, d')) \<and>
            ascii_string (py_upper (py_strip kp)) \<and>
            py_upper (py_strip kp) \<noteq> [] \<and>
            \<not> py_isspace (hd (py_upper (py_strip kp))) \<and>
            \<not> py_isspace (last (py_upper (py_strip kp))) \<and>
            (\<forall>c \<in> set (py_upper (py_strip kp)).
               \<not> (97 \<le> (of_char c :: nat) \<and> (of_char c :: nat) \<le> 122)))"
proof (intro conjI impI)
  assume bad: "(\<forall>c \<in> set kp. py_isspace c) \<or> tahun < 2000 \<or> 9999 < tahun"
  show "\<exists>msg. generate_nim tahun kp d = Inl (ValueError msg)"
  proof (cases "py_upper (py_strip kp) = []")
    case True
    then show ?thesis by (simp add: generate_nim_rejected(1))
  next
    case False
    with bad have "tahun < 2000 \<or> 9999 < tahun"
      by (auto simp: py_upper_empty_iff py_strip_empty_iff)
    with False show ?thesis by (simp add: generate_nim_rejected(2))
  qed
next
  assume good: "\<not> (\<forall>c \<in> set kp. py_isspace c) \<and> 2000 \<le> tahun \<and> tahun \<le> 9999 \<and> counters_ok d"
  then have ne: "py_strip kp \<noteq> []" by (simp add: py_strip_empty_iff)
  then have kd: "py_upper (py_strip kp) \<noteq> []" by (simp add: py_upper_empty_iff)
  from good generate_nim_effect [OF _ kd, of d tahun]
  show "\<exists>sq d'. generate_nim tahun kp d =
                 Inr (py_str tahun @ py_upper (py_strip kp) @ fmt_04d sq, d')"
    by blast
  from assms show "ascii_string (py_upper (py_strip kp))" by (rule normalised_ascii)
  from kd show "py_upper (py_strip kp) \<noteq> []" .
  from py_upper_trimmed [OF ne] show "\<not> py_isspace (hd (py_upper (py_strip kp)))"
    and "\<not> py_isspace (last (py_upper (py_strip kp)))" by simp_all
  show "\<forall>c \<in> set (py_upper (py_strip kp)).
          \<not> (97 \<le> (of_char c :: nat) \<and> (of_char c :: nat) \<le> 122)"
    using py_upper_no_lower by blast
qed

theorem generate_nim_input_constraints_witness:
  "ascii_string ''  '' \<and> py_strip ''  '' = [] \<and>
   generate_nim 2025 ''  '' db_si_counter =
     Inl (ValueError ''kode_prodi must be a non-empty string'') \<and>
   ascii_string ''TIF'' \<and>
   generate_nim 1999 ''TIF'' db_si_counter =
     Inl (ValueError ''tahun must be a four-digit year'') \<and>
   generate_nim 10000 ''TIF'' db_si_counter =
     Inl (ValueError ''tahun must be a four-digit year'') \<and>
   ascii_string '' tif '' \<and> counters_ok db_si_counter \<and>
   (\<exists>sq d'. generate_nim 2025 '' tif '' db_si_counter = Inr (''2025TIF'' @ fmt_04d sq, d')) \<and>
   py_upper (py_strip '' tif '') = ''TIF'' \<and> ascii_string ''TIF''"
proof -
  have ascii: "ascii_string ''  ''" "ascii_string ''TIF''" "ascii_string '' tif ''"
    by (simp_all add: ascii_string_def)
  have blank: "(\<forall>c \<in> set ''  ''. py_isspace c) \<or> (2025::int) < 2000 \<or> (9999::int) < 2025"
    by (simp add: py_isspace_def)
  have early: "(\<forall>c \<in> set ''TIF''. py_isspace c) \<or> (1999::int) < 2000 \<or> (9999::int) < 1999"
    by simp
  have late: "(\<forall>c \<in> set ''TIF''. py_isspace c) \<or> (10000::int) < 2000 \<or> (9999::int) < 10000"
    by simp
  have good: "\<not> (\<forall>c \<in> set '' tif ''. py_isspace c) \<and> (2000::int) \<le> 2025 \<and> (2025::int) \<le> 9999 \<and>
      counters_ok db_si_counter"
    by (simp add: py_isspace_def db_si_counter_facts)
  from generate_nim_input_constraints [OF ascii(1), of 2025 db_si_counter, THEN conjunct1, THEN mp,
      OF blank]
  have r1: "generate_nim 2025 ''  '' db_si_counter =
              Inl (ValueError ''kode_prodi must be a non-empty string'')"
    by (auto simp: generate_nim_def more_examples py_upper_def)
  from generate_nim_input_constraints [OF ascii(2), of 1999 db_si_counter, THEN conjunct1, THEN mp,
      OF early]
  have r2: "generate_nim 1999 ''TIF'' db_si_counter =
              Inl (ValueError ''tahun must be a four-digit year'')"
    by (auto simp: generate_nim_def normalize_examples)
  from generate_nim_input_constraints [OF ascii(2), of 10000 db_si_counter, THEN conjunct1, THEN mp,
      OF late]
  have r3: "generate_nim 10000 ''TIF'' db_si_counter =
              Inl (ValueError ''tahun must be a four-digit year'')"
    by (auto simp: generate_nim_def normalize_examples)
  note accepted = generate_nim_input_constraints [OF ascii(3), of 2025 db_si_counter,
      THEN conjunct2, THEN mp, OF good]
  from accepted [THEN conjunct1]
  have r4: "\<exists>sq d'. generate_nim 2025 '' tif '' db_si_counter = Inr (''2025TIF'' @ fmt_04d sq, d')"
    by (simp add: normalize_examples py_str_2025)
  from accepted [THEN conjunct2, THEN conjunct1]
  have r5: "ascii_string ''TIF''"
    by (simp add: normalize_examples)
  from ascii(1) more_examples(4) r1 ascii(2) r2 r3 ascii(3) db_si_counter_facts(1) r4
    normalize_examples(3) r5
  show ?thesis by (intro conjI)
qed

section \<open>The approval handlers\<close>

subsection \<open>Retrying after a uniqueness violation\<close>

text \<open>
  C1, as the handlers implement it. For a pending candidate both handlers count once, before
  the loop, the stored NIMs that match the prefix; attempt \<open>a\<close> of at most five (0 to 4)
  tries the prefix followed by that count plus 1 plus \<open>a\<close>. The first attempt whose
  commit is not refused by the unique index on \<^verbatim>\<open>nim\<close> decides the result; when all five
  are refused the handler gives up. No counter row is read or written on the way.
\<close>

theorem approve_retry_policy:
  fixes yr :: int and d :: database and prodi :: ProgramStudi
    and http_nim cli_nim :: "nat \<Rightarrow> string"
  assumes "find (\<lambda>r. calon_id r = cid) (calon_mahasiswa d) = Some calon"
    and "status calon = Pending"
    and "find (\<lambda>p. prodi_id p = program_studi_id calon) (program_studi d) = Some prodi"
  defines "http_nim \<equiv> \<lambda>a. py_str yr @ kode prodi @
             fmt_04d (int (nim_like_count (py_str yr @ kode prodi @ ''%'') d + 1 + a))"
    and "cli_nim \<equiv> \<lambda>a. py_str yr @ py_upper (kode prodi) @
             fmt_04d (int (nim_like_count (py_str yr @ py_upper (kode prodi) @ ''%'') d + 1 + a))"
  shows "(\<forall>a d'. a < 5 \<and> (\<forall>b<a. commit_approval d calon (http_nim b) (clock b) = None) \<and>
                 commit_approval d calon (http_nim a) (clock a) = Some d' \<longrightarrow>
            approve_mahasiswa yr clock cid d = (Inr (Some (http_nim a)), d')) \<and>
         ((\<forall>a<5. commit_approval d calon (http_nim a) (clock a) = None) \<longrightarrow>
            approve_mahasiswa yr clock cid d =
              (Inl (HTTPException 409 ''Could not generate unique NIM; please retry''), d)) \<and>
         (\<forall>a d'. a < 5 \<and> (\<forall>b<a. commit_approval d calon (cli_nim b) (clock b) = None) \<and>
                 commit_approval d calon (cli_nim a) (clock a) = Some d' \<longrightarrow>
            approve yr clock (Some cid) d =
              (Inr (0, [''SUCCESS: Calon di-approve, NIM generated: '' @ cli_nim a]), d')) \<and>
         ((\<forall>a<5. commit_approval d calon (cli_nim a) (clock a) = None) \<longrightarrow>
            approve yr clock (Some cid) d =
              (Inr (13, [''ERROR: Gagal generate unique NIM setelah 5 percobaan'']), d)) \<and>
         nim_counters (snd (approve_mahasiswa yr clock cid d)) = nim_counters d \<and>
         nim_counters (snd (approve yr clock (Some cid) d)) = nim_counters d"
proof -
  note http = approve_mahasiswa_pending [OF assms(1-3), of yr clock]
  note cli = approve_pending [OF assms(1-3), of yr clock]
  have h1: "approve_mahasiswa yr clock cid d = (Inr (Some (http_nim a)), d')"
    if "a < 5" and "\<forall>b<a. commit_approval d calon (http_nim b) (clock b) = None"
      and "commit_approval d calon (http_nim a) (clock a) = Some d'" for a d'
  proof -
    from that(2) have "\<forall>b \<in> set [0..<a]. commit_approval d calon
        ((py_str yr @ kode prodi) @
         fmt_04d (int (nim_like_count (py_str yr @ kode prodi @ ''%'') d + 1 + b))) (clock b) = None"
      by (simp add: http_nim_def)
    moreover from that(3) have "commit_approval d calon
        ((py_str yr @ kode prodi) @
         fmt_04d (int (nim_like_count (py_str yr @ kode prodi @ ''%'') d + 1 + a))) (clock a) = Some d'"
      by (simp add: http_nim_def)
    ultimately show ?thesis
      unfolding http upt_split [OF that(1)] http_nim_def
      by (simp only: main_attempts_first append_assoc)
  qed
  have h2: "approve_mahasiswa yr clock cid d =
              (Inl (HTTPException 409 ''Could not generate unique NIM; please retry''), d)"
    if "\<forall>a<5. commit_approval d calon (http_nim a) (clock a) = None"
  proof -
    from that have "\<forall>a \<in> set [0..<5]. commit_approval d calon
        ((py_str yr @ kode prodi) @
         fmt_04d (int (nim_like_count (py_str yr @ kode prodi @ ''%'') d + 1 + a))) (clock a) = None"
      by (simp add: http_nim_def)
    then show ?thesis unfolding http by (rule main_attempts_exhausted)
  qed
  have c1: "approve yr clock (Some cid) d =
              (Inr (0, [''SUCCESS: Calon di-approve, NIM generated: '' @ cli_nim a]), d')"
    if "a < 5" and "\<forall>b<a. commit_approval d calon (cli_nim b) (clock b) = None"
      and "commit_approval d calon (cli_nim a) (clock a) = Some d'" for a d'
  proof -
    from that(2) have "\<forall>b \<in> set [0..<a]. commit_approval d calon
        ((py_str yr @ py_upper (kode prodi)) @
         fmt_04d (int (nim_like_count (py_str yr @ py_upper (kode prodi) @ ''%'') d + 1 + b)))
        (clock b) = None"
      by (simp add: cli_nim_def)
    moreover from that(3) have "commit_approval d calon
        ((py_str yr @ py_upper (kode prodi)) @
         fmt_04d (int (nim_like_count (py_str yr @ py_upper (kode prodi) @ ''%'') d + 1 + a)))
        (clock a) = Some d'"
      by (simp add: cli_nim_def)
    ultimately show ?thesis
      unfolding cli upt_split [OF that(1)] cli_nim_def
      by (simp only: cli_attempts_first append_assoc)
  qed
  have c2: "approve yr clock (Some cid) d =
              (Inr (13, [''ERROR: Gagal generate unique NIM setelah 5 percobaan'']), d)"
    if "\<forall>a<5. commit_approval d calon (cli_nim a) (clock a) = None"
  proof -
    from that have "\<forall>a \<in> set [0..<5]. commit_approval d calon
        ((py_str yr @ py_upper (kode prodi)) @
         fmt_04d (int (nim_like_count (py_str yr @ py_upper (kode prodi) @ ''%'') d + 1 + a)))
        (clock a) = None"
      by (simp add: cli_nim_def)
    then show ?thesis unfolding cli by (rule cli_attempts_exhausted)
  qed
  from h1 h2 c1 c2 show ?thesis
    by (simp only: approve_mahasiswa_counters approve_counters) blast
qed

theorem approve_retry_policy_witness:
  "find (\<lambda>r. calon_id r = 2) (calon_mahasiswa db_gap) = Some (example_calon 2 Pending None) \<and>
   status (example_calon 2 Pending None) = Pending \<and>
   nim_like_count ''2025TIF%'' db_gap = 1 \<and>
   commit_approval db_gap (example_calon 2 Pending None) ''2025TIF0002'' 10 = None \<and>
   approve_mahasiswa 2025 (\<lambda>a. 10 + a) 2 db_gap =
     (Inr (Some ''2025TIF0003''),
      db_gap\<lparr>calon_mahasiswa :=
        [example_calon 1 Approved (Some ''2025TIF0002''),
         (example_calon 2 Pending None)
           \<lparr>status := Approved, approved_at := Some 11, nim := Some ''2025TIF0003''\<rparr>]\<rparr>) \<and>
   approve 2025 (\<lambda>a. 10 + a) (Some 2) db_gap =
     (Inr (0, [''SUCCESS: Calon di-approve, NIM generated: 2025TIF0003'']),
      db_gap\<lparr>calon_mahasiswa :=
        [example_calon 1 Approved (Some ''2025TIF0002''),
         (example_calon 2 Pending None)
           \<lparr>status := Approved, approved_at := Some 11, nim := Some ''2025TIF0003''\<rparr>]\<rparr>) \<and>
   approve_mahasiswa 2025 (\<lambda>a. 0) 6 db_crowded =
     (Inl (HTTPException 409 ''Could not generate unique NIM; please retry''), db_crowded) \<and>
   approve 2025 (\<lambda>a. 0) (Some 6) db_crowded =
     (Inr (13, [''ERROR: Gagal generate unique NIM setelah 5 percobaan'']), db_crowded)"
proof -
  have st: "status (example_calon 2 Pending None) = Pending"
    "status (example_calon 6 Pending None) = Pending"
    by simp_all
  have up: "py_upper ''TIF'' = ''TIF''" by (rule normalize_examples)
  note gap = approve_retry_policy [OF db_gap_facts(1) st(1) db_gap_facts(2),
      where yr = 2025 and clock = "\<lambda>a. 10 + a"]
  note crowded = approve_retry_policy [OF db_crowded_facts(1) st(2) db_crowded_facts(2),
      where yr = 2025 and clock = "\<lambda>a. 0"]
  have http: "approve_mahasiswa 2025 (\<lambda>a. 10 + a) 2 db_gap =
     (Inr (Some ''2025TIF0003''),
      db_gap\<lparr>calon_mahasiswa :=
        [example_calon 1 Approved (Some ''2025TIF0002''),
         (example_calon 2 Pending None)
           \<lparr>status := Approved, approved_at := Some 11, nim := Some ''2025TIF0003''\<rparr>]\<rparr>)"
    using gap [THEN conjunct1, rule_format, of 1
        "db_gap\<lparr>calon_mahasiswa :=
          [example_calon 1 Approved (Some ''2025TIF0002''),
           (example_calon 2 Pending None)
             \<lparr>status := Approved, approved_at := Some 11, nim := Some ''2025TIF0003''\<rparr>]\<rparr>"]
    by (simp add: py_str_2025 db_gap_facts(3) fmt_04d_examples db_gap_commits)
  have cli: "approve 2025 (\<lambda>a. 10 + a) (Some 2) db_gap =
     (Inr (0, [''SUCCESS: Calon di-approve, NIM generated: 2025TIF0003'']),
      db_gap\<lparr>calon_mahasiswa :=
        [example_calon 1 Approved (Some ''2025TIF0002''),
         (example_calon 2 Pending None)
           \<lparr>status := Approved, approved_at := Some 11, nim := Some ''2025TIF0003''\<rparr>]\<rparr>)"
    using gap [THEN conjunct2, THEN conjunct2, THEN conjunct1, rule_format, of 1
        "db_gap\<lparr>calon_mahasiswa :=
          [example_calon 1 Approved (Some ''2025TIF0002''),
           (example_calon 2 Pending None)
             \<lparr>status := Approved, approved_at := Some 11, nim := Some ''2025TIF0003''\<rparr>]\<rparr>"]
    by (simp add: up py_str_2025 db_gap_facts(3) fmt_04d_examples db_gap_commits)
  have http_ex: "approve_mahasiswa 2025 (\<lambda>a. 0) 6 db_crowded =
     (Inl (HTTPException 409 ''Could not generate unique NIM; please retry''), db_crowded)"
    using crowded [THEN conjunct2, THEN conjunct1] db_crowded_all_taken [of "''TIF''" "\<lambda>a. 0"]
    by simp
  have cli_ex: "approve 2025 (\<lambda>a. 0) (Some 6) db_crowded =
     (Inr (13, [''ERROR: Gagal generate unique NIM setelah 5 percobaan'']), db_crowded)"
    using crowded [THEN conjunct2, THEN conjunct2, THEN conjunct2, THEN conjunct1]
      db_crowded_all_taken [of "''TIF''" "\<lambda>a. 0"]
    by (simp add: up)
  from db_gap_facts(1) st(1) db_gap_facts(3) db_gap_commits(1) [of 10] http cli http_ex cli_ex
  show ?thesis by (intro conjI)
qed

text \<open>
  The retry does not take a fresh number from a counter. With one stored NIM, number 2,
  the count is 1: the first attempt proposes number 2, which a candidate already holds, and
  the retry proposes the count plus 2. The table \<^verbatim>\<open>nim_counters\<close> is empty before and after.
\<close>

theorem approve_retry_counterexample:
  "nim (example_calon 1 Approved (Some ''2025TIF0002'')) = Some ''2025TIF0002'' \<and>
   example_calon 1 Approved (Some ''2025TIF0002'') \<in> set (calon_mahasiswa db_gap) \<and>
   nim_like_count ''2025TIF%'' db_gap = 1 \<and>
   commit_approval db_gap (example_calon 2 Pending None) (''2025TIF'' @ fmt_04d (1 + 1 + 0)) 10 = None \<and>
   ''2025TIF'' @ fmt_04d (1 + 1 + 0) = ''2025TIF0002'' \<and>
   ''2025TIF'' @ fmt_04d (1 + 1 + 1) = ''2025TIF0003'' \<and>
   fst (approve_mahasiswa 2025 (\<lambda>a. 10 + a) 2 db_gap) = Inr (Some ''2025TIF0003'') \<and>
   fst (approve 2025 (\<lambda>a. 10 + a) (Some 2) db_gap) =
     Inr (0, [''SUCCESS: Calon di-approve, NIM generated: 2025TIF0003'']) \<and>
   nim_counters db_gap = [] \<and>
   nim_counters (snd (approve_mahasiswa 2025 (\<lambda>a. 10 + a) 2 db_gap)) = [] \<and>
   nim_counters (snd (approve 2025 (\<lambda>a. 10 + a) (Some 2) db_gap)) = []"
proof -
  have st: "status (example_calon 2 Pending None) = Pending" by simp
  have up: "py_upper ''TIF'' = ''TIF''" by (rule normalize_examples)
  have http: "fst (approve_mahasiswa 2025 (\<lambda>a. 10 + a) 2 db_gap) = Inr (Some ''2025TIF0003'')"
    by (simp add: approve_mahasiswa_pending [OF db_gap_facts(1) st db_gap_facts(2)]
        py_str_2025 db_gap_facts(3) upt_5 Let_def fmt_04d_examples db_gap_commits)
  have cli: "fst (approve 2025 (\<lambda>a. 10 + a) (Some 2) db_gap) =
      Inr (0, [''SUCCESS: Calon di-approve, NIM generated: 2025TIF0003''])"
    by (simp add: approve_pending [OF db_gap_facts(1) st db_gap_facts(2)] up
        py_str_2025 db_gap_facts(3) upt_5 Let_def fmt_04d_examples db_gap_commits)
  have mem: "example_calon 1 Approved (Some ''2025TIF0002'') \<in> set (calon_mahasiswa db_gap)"
    by (simp add: db_gap_def)
  have first: "commit_approval db_gap (example_calon 2 Pending None)
      (''2025TIF'' @ fmt_04d (1 + 1 + 0)) 10 = None"
    by (simp add: fmt_04d_examples db_gap_commits)
  have cands: "''2025TIF'' @ fmt_04d (1 + 1 + 0) = ''2025TIF0002''"
    "''2025TIF'' @ fmt_04d (1 + 1 + 1) = ''2025TIF0003''"
    by (simp_all add: fmt_04d_examples)
  have c1: "nim_counters (snd (approve_mahasiswa 2025 (\<lambda>a. 10 + a) 2 db_gap)) = []"
    by (simp add: approve_mahasiswa_counters db_gap_facts)
  have c2: "nim_counters (snd (approve 2025 (\<lambda>a. 10 + a) (Some 2) db_gap)) = []"
    by (simp add: approve_counters db_gap_facts)
  have n1: "nim (example_calon 1 Approved (Some ''2025TIF0002'')) = Some ''2025TIF0002''"
    by simp
  from n1 mem db_gap_facts(3) first cands http cli db_gap_facts(4) c1 c2
  show ?thesis by (intro conjI)
qed

subsection \<open>Approving an approved candidate\<close>

text \<open>
  C4. When the candidate found under the id is already approved, both handlers answer
  with the NIM the candidate has, raise nothing (the HTTP handler returns the NIM, the
  command prints it and exits with code 0), and leave the whole database as it was: every
  column of every candidate and every counter row.
\<close>

theorem approve_already_approved:
  assumes "find (\<lambda>r. calon_id r = cid) (calon_mahasiswa d) = Some calon"
    and "status calon = Approved"
  shows "approve_mahasiswa yr clock cid d = (Inr (nim calon), d) \<and>
         approve yr clock (Some cid) d =
           (Inr (0, [''INFO: Calon sudah di-approve sebelumnya, NIM: '' @ py_str_opt (nim calon)]), d)"
  using assms by (simp add: approve_mahasiswa_def approve_def)

theorem approve_already_approved_witness:
  "find (\<lambda>r. calon_id r = 1) (calon_mahasiswa db_mixed) =
     Some (example_calon 1 Approved (Some ''2025TIF0001'')) \<and>
   status (example_calon 1 Approved (Some ''2025TIF0001'')) = Approved \<and>
   approve_mahasiswa 2025 (\<lambda>a. 0) 1 db_mixed = (Inr (Some ''2025TIF0001''), db_mixed) \<and>
   approve 2025 (\<lambda>a. 0) (Some 1) db_mixed =
     (Inr (0, [''INFO: Calon sudah di-approve sebelumnya, NIM: 2025TIF0001'']), db_mixed)"
proof -
  have f: "find (\<lambda>r. calon_id r = 1) (calon_mahasiswa db_mixed) =
             Some (example_calon 1 Approved (Some ''2025TIF0001''))"
    by (simp add: db_mixed_def)
  have s: "status (example_calon 1 Approved (Some ''2025TIF0001'')) = Approved"
    by simp
  from approve_already_approved [OF f s, of 2025 "\<lambda>a. 0"] f s show ?thesis
    by simp
qed

subsection \<open>Approving a candidate that is neither pending nor approved\<close>

text \<open>
  C5. When the candidate found under the id is neither pending nor approved, the HTTP
  handler raises the 409 response naming the status and the command exits with code 12;
  the database, and with it the candidate's \<^verbatim>\<open>nim\<close>, \<^verbatim>\<open>status\<close> and
  \<^verbatim>\<open>approved_at\<close>, is unchanged.
\<close>

theorem approve_invalid_state:
  assumes "find (\<lambda>r. calon_id r = cid) (calon_mahasiswa d) = Some calon"
    and "status calon \<noteq> Pending" and "status calon \<noteq> Approved"
  shows "approve_mahasiswa yr clock cid d =
           (Inl (HTTPException 409
              (''Cannot approve candidate with status '' @ status_str (status calon))), d) \<and>
         approve yr clock (Some cid) d =
           (Inr (12, [''ERROR: Status calon tidak pending (current: '' @
                      status_str (status calon) @ '')'']), d)"
  using assms by (simp add: approve_mahasiswa_def approve_def)

theorem approve_invalid_state_witness:
  "find (\<lambda>r. calon_id r = 2) (calon_mahasiswa db_mixed) = Some (example_calon 2 Rejected None) \<and>
   status (example_calon 2 Rejected None) \<noteq> Pending \<and>
   status (example_calon 2 Rejected None) \<noteq> Approved \<and>
   approve_mahasiswa 2025 (\<lambda>a. 0) 2 db_mixed =
     (Inl (HTTPException 409 ''Cannot approve candidate with status rejected''), db_mixed) \<and>
   approve 2025 (\<lambda>a. 0) (Some 2) db_mixed =
     (Inr (12, [''ERROR: Status calon tidak pending (current: rejected)'']), db_mixed)"
proof -
  have f: "find (\<lambda>r. calon_id r = 2) (calon_mahasiswa db_mixed) =
             Some (example_calon 2 Rejected None)"
    by (simp add: db_mixed_def)
  have s: "status (example_calon 2 Rejected None) \<noteq> Pending"
    "status (example_calon 2 Rejected None) \<noteq> Approved"
    by simp_all
  from approve_invalid_state [OF f s, of 2025 "\<lambda>a. 0"] f s show ?thesis
    by simp
qed

subsection \<open>Giving up after five refused attempts\<close>

text \<open>
  C6. When the commit of each of the five attempts is refused by the unique index, the HTTP
  handler raises the 409 response that asks the client to retry, the command exits with
  code 13, and the database is as it was before the call: the candidate keeps its
  \<^verbatim>\<open>status\<close>, \<^verbatim>\<open>nim\<close> and \<^verbatim>\<open>approved_at\<close>.
\<close>

theorem approve_exhausted:
  assumes "find (\<lambda>r. calon_id r = cid) (calon_mahasiswa d) = Some calon"
    and "status calon = Pending"
    and "find (\<lambda>p. prodi_id p = program_studi_id calon) (program_studi d) = Some prodi"
  shows "((\<forall>a<5. commit_approval d calon
                  (py_str yr @ kode prodi @
                   fmt_04d (int (nim_like_count (py_str yr @ kode prodi @ ''%'') d + 1 + a)))
                  (clock a) = None) \<longrightarrow>
          approve_mahasiswa yr clock cid d =
            (Inl (HTTPException 409 ''Could not generate unique NIM; please retry''), d)) \<and>
         ((\<forall>a<5. commit_approval d calon
                  (py_str yr @ py_upper (kode prodi) @
                   fmt_04d (int (nim_like_count (py_str yr @ py_upper (kode prodi) @ ''%'') d + 1 + a)))
                  (clock a) = None) \<longrightarrow>
          approve yr clock (Some cid) d =
            (Inr (13, [''ERROR: Gagal generate unique NIM setelah 5 percobaan'']), d))"
proof (intro conjI impI)
  assume "\<forall>a<5. commit_approval d calon
                  (py_str yr @ kode prodi @
                   fmt_04d (int (nim_like_count (py_str yr @ kode prodi @ ''%'') d + 1 + a)))
                  (clock a) = None"
  then have "\<forall>a \<in> set [0..<5]. commit_approval d calon
                  ((py_str yr @ kode prodi) @
                   fmt_04d (int (nim_like_count (py_str yr @ kode prodi @ ''%'') d + 1 + a)))
                  (clock a) = None"
    by simp
  then show "approve_mahasiswa yr clock cid d =
            (Inl (HTTPException 409 ''Could not generate unique NIM; please retry''), d)"
    unfolding approve_mahasiswa_pending [OF assms] by (rule main_attempts_exhausted)
next
  assume "\<forall>a<5. commit_approval d calon
                  (py_str yr @ py_upper (kode prodi) @
                   fmt_04d (int (nim_like_count (py_str yr @ py_upper (kode prodi) @ ''%'') d + 1 + a)))
                  (clock a) = None"
  then have "\<forall>a \<in> set [0..<5]. commit_approval d calon
                  ((py_str yr @ py_upper (kode prodi)) @
                   fmt_04d (int (nim_like_count (py_str yr @ py_upper (kode prodi) @ ''%'') d + 1 + a)))
                  (clock a) = None"
    by simp
  then show "approve yr clock (Some cid) d =
            (Inr (13, [''ERROR: Gagal generate unique NIM setelah 5 percobaan'']), d)"
    unfolding approve_pending [OF assms] by (rule cli_attempts_exhausted)
qed

theorem approve_exhausted_witness:
  "find (\<lambda>r. calon_id r = 6) (calon_mahasiswa db_crowded) = Some (example_calon 6 Pending None) \<and>
   status (example_calon 6 Pending None) = Pending \<and>
   nim_like_count ''2025TIF%'' db_crowded = 5 \<and>
   commit_approval db_crowded (example_calon 6 Pending None) ''2025TIF0006'' 0 = None \<and>
   commit_approval db_crowded (example_calon 6 Pending None) ''2025TIF0007'' 0 = None \<and>
   commit_approval db_crowded (example_calon 6 Pending None) ''2025TIF0008'' 0 = None \<and>
   commit_approval db_crowded (example_calon 6 Pending None) ''2025TIF0009'' 0 = None \<and>
   commit_approval db_crowded (example_calon 6 Pending None) ''2025TIF0010'' 0 = None \<and>
   approve_mahasiswa 2025 (\<lambda>a. 0) 6 db_crowded =
     (Inl (HTTPException 409 ''Could not generate unique NIM; please retry''), db_crowded) \<and>
   approve 2025 (\<lambda>a. 0) (Some 6) db_crowded =
     (Inr (13, [''ERROR: Gagal generate unique NIM setelah 5 percobaan'']), db_crowded)"
proof -
  have st: "status (example_calon 6 Pending None) = Pending" by simp
  note inst = approve_exhausted [OF db_crowded_facts(1) st db_crowded_facts(2),
      of 2025 "\<lambda>a. 0", unfolded example_prodi_sel]
  have up: "py_upper ''TIF'' = ''TIF''" by (rule normalize_examples)
  have http: "approve_mahasiswa 2025 (\<lambda>a. 0) 6 db_crowded =
     (Inl (HTTPException 409 ''Could not generate unique NIM; please retry''), db_crowded)"
    using inst [THEN conjunct1] db_crowded_all_taken [of "''TIF''" "\<lambda>a. 0"] by (rule mp) simp
  have cli: "approve 2025 (\<lambda>a. 0) (Some 6) db_crowded =
     (Inr (13, [''ERROR: Gagal generate unique NIM setelah 5 percobaan'']), db_crowded)"
    using inst [THEN conjunct2] db_crowded_all_taken [of "py_upper ''TIF''" "\<lambda>a. 0"]
    by (rule mp) (simp add: up)
  from db_crowded_facts(1) st db_crowded_facts(3) db_crowded_commits [of 0] http cli
  show ?thesis by (intro conjI)
qed

subsection \<open>A program code stored in lower case\<close>

text \<open>
  C10. The command upper-cases the stored program code before it builds the prefix; the
  HTTP handler uses the code as stored. For a program stored as \<^verbatim>\<open>tif\<close> and a database
  with no NIM yet, the HTTP handler assigns \<^verbatim>\<open>2025tif0001\<close> and the command assigns
  \<^verbatim>\<open>2025TIF0001\<close> to the same pending candidate.
\<close>

theorem approve_handlers_differ_on_lower_case:
  "kode (example_prodi ''tif'') = ''tif'' \<and>
   find (\<lambda>r. calon_id r = 1) (calon_mahasiswa db_lower) = Some (example_calon 1 Pending None) \<and>
   find (\<lambda>p. prodi_id p = program_studi_id (example_calon 1 Pending None)) (program_studi db_lower) =
     Some (example_prodi ''tif'') \<and>
   approve_mahasiswa 2025 (\<lambda>a. 0) 1 db_lower =
     (Inr (Some ''2025tif0001''),
      db_lower\<lparr>calon_mahasiswa :=
        [(example_calon 1 Pending None)
           \<lparr>status := Approved, approved_at := Some 0, nim := Some ''2025tif0001''\<rparr>]\<rparr>) \<and>
   approve 2025 (\<lambda>a. 0) (Some 1) db_lower =
     (Inr (0, [''SUCCESS: Calon di-approve, NIM generated: 2025TIF0001'']),
      db_lower\<lparr>calon_mahasiswa :=
        [(example_calon 1 Pending None)
           \<lparr>status := Approved, approved_at := Some 0, nim := Some ''2025TIF0001''\<rparr>]\<rparr>)"
proof -
  have st: "status (example_calon 1 Pending None) = Pending" by simp
  have up: "py_upper ''tif'' = ''TIF''" by (rule normalize_examples)
  have http: "approve_mahasiswa 2025 (\<lambda>a. 0) 1 db_lower =
     (Inr (Some ''2025tif0001''),
      db_lower\<lparr>calon_mahasiswa :=
        [(example_calon 1 Pending None)
           \<lparr>status := Approved, approved_at := Some 0, nim := Some ''2025tif0001''\<rparr>]\<rparr>)"
    by (simp add: approve_mahasiswa_pending [OF db_lower_facts(1) st db_lower_facts(2)]
        py_str_2025 db_lower_facts(3) upt_5 Let_def fmt_04d_examples db_lower_commits)
  have cli: "approve 2025 (\<lambda>a. 0) (Some 1) db_lower =
     (Inr (0, [''SUCCESS: Calon di-approve, NIM generated: 2025TIF0001'']),
      db_lower\<lparr>calon_mahasiswa :=
        [(example_calon 1 Pending None)
           \<lparr>status := Approved, approved_at := Some 0, nim := Some ''2025TIF0001''\<rparr>]\<rparr>)"
    by (simp add: approve_pending [OF db_lower_facts(1) st db_lower_facts(2)] up
        py_str_2025 db_lower_facts(4) upt_5 Let_def fmt_04d_examples db_lower_commits)
  from example_prodi_sel(2) [of "''tif''"] db_lower_facts(1,2) http cli
  show ?thesis by (intro conjI)
qed

end
